theory Spec2Isabelle
  imports Complex_Main "HOL-Library.Word" "HOL-Library.Multiset"
begin

unbundle bit_operations_syntax

section \<open>Go strings\<close>

text \<open>
  A Go string is a sequence of bytes; it is modelled as a \<^typ>\<open>string\<close>, whose
  characters are bytes.  \<open>byte c\<close> is the numeric value of a byte.
\<close>

definition byte :: "char \<Rightarrow> nat" where
  "byte c = of_char c"

text \<open>\<open>utf8.RuneCountInString\<close>: the width of the rune that starts a byte sequence,
  following the tables \<open>first\<close> and \<open>acceptRanges\<close> of package \<open>unicode/utf8\<close>.
  An invalid or truncated encoding counts as one rune of width 1.\<close>

text \<open>\<open>accept lo hi cs i\<close>: the byte at offset \<open>i\<close> exists and lies in \<open>lo..hi\<close>.\<close>

definition accept :: "nat \<Rightarrow> nat \<Rightarrow> nat list \<Rightarrow> nat \<Rightarrow> bool" where
  "accept lo hi cs i = (i < length cs \<and> lo \<le> cs ! i \<and> cs ! i \<le> hi)"

definition runeWidth :: "nat \<Rightarrow> nat list \<Rightarrow> nat" where
  "runeWidth c cs =
     (if c < 128 then 1
      else if c < 194 \<or> 245 \<le> c then 1
      else if c < 224 then
        (if 1 \<le> length cs \<and> accept 128 191 cs 0 then 2 else 1)
      else if c < 240 then
        (if 2 \<le> length cs
            \<and> (if c = 224 then accept 160 191 cs 0
                 else if c = 237 then accept 128 159 cs 0
                 else accept 128 191 cs 0)
            \<and> accept 128 191 cs 1 then 3 else 1)
      else
        (if 3 \<le> length cs
            \<and> (if c = 240 then accept 144 191 cs 0
                 else if c = 244 then accept 128 143 cs 0
                 else accept 128 191 cs 0)
            \<and> accept 128 191 cs 1 \<and> accept 128 191 cs 2 then 4 else 1))"

fun runeCount :: "nat list \<Rightarrow> nat" where
  "runeCount [] = 0"
| "runeCount (c # cs) = Suc (runeCount (drop (runeWidth c cs - 1) cs))"

definition RuneCountInString :: "string \<Rightarrow> nat" where
  "RuneCountInString s = runeCount (map byte s)"

text \<open>\<open>strings.Split(s, sep)\<close> for a one-byte separator.\<close>

fun Split :: "string \<Rightarrow> char \<Rightarrow> string list" where
  "Split [] sep = [[]]"
| "Split (x # xs) sep =
     (if x = sep then [] # Split xs sep
      else (case Split xs sep of [] \<Rightarrow> [[x]] | y # ys \<Rightarrow> (x # y) # ys))"

text \<open>\<open>strings.Contains\<close>, \<open>strings.IndexByte\<close>, \<open>strings.LastIndexByte\<close>.\<close>

fun Contains :: "string \<Rightarrow> string \<Rightarrow> bool" where
  "Contains [] sub = (sub = [])"
| "Contains (x # xs) sub = (take (length sub) (x # xs) = sub \<or> Contains xs sub)"

fun IndexByte :: "string \<Rightarrow> char \<Rightarrow> int" where
  "IndexByte [] c = -1"
| "IndexByte (x # xs) c =
     (if x = c then 0 else (let r = IndexByte xs c in if r < 0 then -1 else r + 1))"

fun scanBack :: "string \<Rightarrow> char \<Rightarrow> nat \<Rightarrow> int" where
  "scanBack [] c n = -1"
| "scanBack (x # xs) c n = (if x = c then int n - 1 else scanBack xs c (n - 1))"

definition LastIndexByte :: "string \<Rightarrow> char \<Rightarrow> int" where
  "LastIndexByte s c = scanBack (rev s) c (length s)"

text \<open>\<open>strings.ToLower\<close>: an ASCII string has its letters \<open>A\<close>..\<open>Z\<close> lowered byte by
  byte; a string with a byte above 127 is mapped rune by rune through
  \<open>unicode.ToLower\<close>, whose tables are a parameter \<open>ul\<close> here.\<close>

definition lowerByte :: "char \<Rightarrow> char" where
  "lowerByte c = (if 65 \<le> byte c \<and> byte c \<le> 90 then char_of (byte c + 32) else c)"

definition ToLower :: "(string \<Rightarrow> string) \<Rightarrow> string \<Rightarrow> string" where
  "ToLower ul s = (if list_all (\<lambda>c. byte c < 128) s then map lowerByte s else ul s)"

text \<open>\<open>s[0] == c\<close> and \<open>s[len(s)-1] == c\<close>; every call site has a non-empty \<open>s\<close>.\<close>

definition firstIs :: "string \<Rightarrow> char \<Rightarrow> bool" where
  "firstIs s c = (case s of [] \<Rightarrow> False | x # _ \<Rightarrow> x = c)"

definition lastIs :: "string \<Rightarrow> char \<Rightarrow> bool" where
  "lastIs s c = (s \<noteq> [] \<and> last s = c)"

section \<open>Paths of extend, include and show statements (package ast)\<close>

definition forbiddenByte :: "char \<Rightarrow> bool" where
  "forbiddenByte c =
     (c \<in> {CHR 0x22, CHR ''*'', CHR ''/'', CHR '':'', CHR ''<'', CHR ''>'', CHR ''?'',
            CHR 0x5C, CHR ''|'', CHR 0x7F} \<or> byte c \<le> 31)"

definition isWindowsReservedName :: "string \<Rightarrow> bool" where
  "isWindowsReservedName name =
     (list_ex forbiddenByte name
      \<or> name \<in> set [''con'', ''prn'', ''aux'', ''nul'',
           ''com0'', ''com1'', ''com2'', ''com3'', ''com4'', ''com5'', ''com6'', ''com7'',
           ''com8'', ''com9'', ''lpt0'', ''lpt1'', ''lpt2'', ''lpt3'', ''lpt4'', ''lpt5'',
           ''lpt6'', ''lpt7'', ''lpt8'', ''lpt9'']
      \<or> (length name \<ge> 4 \<and>
           (take 4 name \<in> set [''con.'', ''prn.'', ''aux.'', ''nul.'']
            \<or> (length name \<ge> 5 \<and>
                take 5 name \<in> set [''com0.'', ''com1.'', ''com2.'', ''com3.'', ''com4.'',
                  ''com5.'', ''com6.'', ''com7.'', ''com8.'', ''com9.'', ''lpt0.'', ''lpt1.'',
                  ''lpt2.'', ''lpt3.'', ''lpt4.'', ''lpt5.'', ''lpt6.'', ''lpt7.'', ''lpt8.'',
                  ''lpt9.'']))))"

definition isDirName :: "string \<Rightarrow> bool" where
  "isDirName name =
     (if name = [] \<or> RuneCountInString name \<ge> 256 then False
      else if name = ''.'' \<or> Contains name ''..'' then False
      else if firstIs name CHR '' '' \<or> lastIs name CHR '' '' then False
      else \<not> isWindowsReservedName name)"

definition isFileName :: "(string \<Rightarrow> string) \<Rightarrow> string \<Rightarrow> bool" where
  "isFileName ul name =
     (let len = RuneCountInString name in
      if len \<le> 2 \<or> len \<ge> 256 then False
      else if firstIs name CHR ''.'' \<or> lastIs name CHR ''.'' then False
      else
        let name' = ToLower ul name;
            dot = LastIndexByte name' CHR ''.'';
            ext = drop (nat (dot + 1)) name'
        in if IndexByte ext CHR ''.'' \<ge> 0 then False
           else if firstIs name' CHR '' '' \<or> lastIs name' CHR '' '' then False
           else \<not> isWindowsReservedName name')"

text \<open>The loop of \<open>IsPath\<close> over \<open>names[:len(names)-1]\<close>, with its index.\<close>

fun dirNames :: "nat \<Rightarrow> string list \<Rightarrow> bool" where
  "dirNames i [] = True"
| "dirNames i (name # names) =
     (if i = 0 \<and> name = [] then dirNames (Suc i) names
      else if name \<noteq> ''..'' \<and> \<not> isDirName name then False
      else dirNames (Suc i) names)"

definition IsPath :: "(string \<Rightarrow> string) \<Rightarrow> string \<Rightarrow> bool" where
  "IsPath ul path =
     (if path = [] \<or> last path = CHR ''/'' then False
      else
        let names = Split path CHR ''/'' in
        if \<not> dirNames 0 (butlast names) then False
        else isFileName ul (last names))"

section \<open>Template.UsedVars (package templates)\<close>

text \<open>The order \<open><=\<close> of Go strings: lexicographic on the bytes.\<close>

fun string_le :: "string \<Rightarrow> string \<Rightarrow> bool" where
  "string_le [] ys = True"
| "string_le (x # xs) [] = False"
| "string_le (x # xs) (y # ys) = (byte x < byte y \<or> (x = y \<and> string_le xs ys))"

text \<open>\<open>sort.Strings\<close> sorts a slice in increasing order; as equal strings cannot be
  told apart, the result does not depend on the algorithm, and insertion sort stands
  for it.\<close>

fun insertString :: "string \<Rightarrow> string list \<Rightarrow> string list" where
  "insertString x [] = [x]"
| "insertString x (y # ys) = (if string_le x y then x # y # ys else y # insertString x ys)"

definition sortStrings :: "string list \<Rightarrow> string list" where
  "sortStrings xs = foldr insertString xs []"

text \<open>\<open>compiler.Global\<close>; the type and the value of a global are kept abstract.\<close>

record ('t, 'v) Global =
  Pkg :: string
  Name :: string
  Type :: 't
  Value :: 'v

record ('f, 't, 'v) Template =
  fn :: 'f
  types :: 't
  globals :: "('t, 'v) Global list"

text \<open>\<open>UsedVars\<close> returns its result and the template as it leaves it.\<close>

definition UsedVars ::
  "('f, 't, 'v) Template \<Rightarrow> string list \<times> ('f, 't, 'v) Template" where
  "UsedVars t = (sortStrings (map Name (globals t)), t)"

section \<open>The command-line driver (cmd/scriggo, function run)\<close>

text \<open>How the process ends: \<open>os.Exit(n)\<close>, or a Go panic that nothing recovers.
  The Go runtime ends a process whose panic is not recovered with exit status 2.\<close>

datatype outcome = Exit int | GoPanic

fun exitStatus :: "outcome \<Rightarrow> int" where
  "exitStatus (Exit n) = n"
| "exitStatus GoPanic = 2"

text \<open>The error returned by \<open>program.Run\<close>: a \<open>*runtime.Panic\<close>,
  \<open>context.DeadlineExceeded\<close>, or any other error.\<close>

datatype runError = RuntimePanic | DeadlineExceeded | OtherRunError

record flags =
  asm :: bool
  timeout :: string
  mem :: string
  args :: "string list"

record loadOptions =
  LimitMemory :: bool

record runOptions =
  Deadline :: "int option"
  MemoryLimiter :: "64 word option"

text \<open>The functions of the standard library and of package scriggo that \<open>run\<close> calls.
  A result \<open>None\<close> is a non-nil error; \<open>Disassemble\<close> is true when its error is nil;
  \<open>Run\<close> returns the error or the exit code of the program.  An \<open>int\<close> has 64 bits.\<close>

record 'p sys =
  ParseDuration :: "string \<Rightarrow> int option"
  Atoi :: "string \<Rightarrow> 64 word option"
  Ext :: "string \<Rightarrow> string"
  Abs :: "string \<Rightarrow> string option"
  ReadFile :: "string \<Rightarrow> string option"
  Load :: "string \<Rightarrow> loadOptions \<Rightarrow> 'p option"
  Disassemble :: "'p \<Rightarrow> bool"
  Run :: "'p \<Rightarrow> runOptions \<Rightarrow> runError + int"

text \<open>The unit of the \<open>-mem\<close> value: its last byte, moved down by \<open>'z' - 'Z'\<close> when it
  is above \<open>'Z'\<close>; and the digits left once a unit \<open>B\<close>, \<open>K\<close>, \<open>M\<close>, \<open>G\<close> is cut.\<close>

definition memUnit :: "string \<Rightarrow> char" where
  "memUnit m = (let unit = last m in if byte unit > 90 then char_of (byte unit - 32) else unit)"

definition memDigits :: "string \<Rightarrow> string" where
  "memDigits m =
     (if memUnit m \<in> {CHR ''B'', CHR ''K'', CHR ''M'', CHR ''G''} then butlast m else m)"

definition memScale :: "char \<Rightarrow> 64 word \<Rightarrow> 64 word" where
  "memScale unit m =
     (if unit = CHR ''K'' then m * 1024
      else if unit = CHR ''M'' then m * (1024 * 1024)
      else if unit = CHR ''G'' then m * (1024 * 1024 * 1024)
      else m)"

text \<open>The three parts of \<open>run\<close>: the \<open>-time\<close> flag, the \<open>-mem\<close> flag, and the rest.
  \<open>Inl\<close> is the end of the process.\<close>

definition parseTime :: "'p sys \<Rightarrow> flags \<Rightarrow> outcome + int option" where
  "parseTime sy fl =
     (if timeout fl \<noteq> [] then
        (case ParseDuration sy (timeout fl) of
           None \<Rightarrow> Inl (Exit 1)
         | Some d \<Rightarrow> Inr (if d \<noteq> 0 then Some d else None))
      else Inr None)"

definition parseMem :: "'p sys \<Rightarrow> flags \<Rightarrow> outcome + 64 word option" where
  "parseMem sy fl =
     (if mem fl \<noteq> [] then
        (case Atoi sy (memDigits (mem fl)) of
           None \<Rightarrow> Inl (Exit 1)
         | Some m \<Rightarrow> Inr (Some (memScale (memUnit (mem fl)) m)))
      else Inr None)"

definition runFile :: "'p sys \<Rightarrow> flags \<Rightarrow> int option \<Rightarrow> 64 word option \<Rightarrow> outcome" where
  "runFile sy fl deadline limit =
     (case args fl of
        [file] \<Rightarrow>
          if Ext sy file \<noteq> ''.go'' then Exit 1
          else (case Abs sy file of
             None \<Rightarrow> Exit 1
           | Some absFile \<Rightarrow>
              (case ReadFile sy absFile of
                 None \<Rightarrow> GoPanic
               | Some main \<Rightarrow>
                  (case Load sy main \<lparr>LimitMemory = (limit \<noteq> None)\<rparr> of
                     None \<Rightarrow> Exit 2
                   | Some program \<Rightarrow>
                      if asm fl then (if Disassemble sy program then Exit 0 else Exit 2)
                      else (case Run sy program \<lparr>Deadline = deadline, MemoryLimiter = limit\<rparr> of
                              Inl RuntimePanic \<Rightarrow> GoPanic
                            | Inl _ \<Rightarrow> Exit 2
                            | Inr code \<Rightarrow> Exit code))))
      | _ \<Rightarrow> Exit 1)"

definition run :: "'p sys \<Rightarrow> flags \<Rightarrow> outcome" where
  "run sy fl =
     (case parseTime sy fl of
        Inl t \<Rightarrow> t
      | Inr deadline \<Rightarrow>
         (case parseMem sy fl of
            Inl t \<Rightarrow> t
          | Inr limit \<Rightarrow> runFile sy fl deadline limit))"

text \<open>What the driver calls a usage error.\<close>

definition usageError :: "'p sys \<Rightarrow> flags \<Rightarrow> bool" where
  "usageError sy fl =
     ((timeout fl \<noteq> [] \<and> ParseDuration sy (timeout fl) = None)
      \<or> (mem fl \<noteq> [] \<and> Atoi sy (memDigits (mem fl)) = None)
      \<or> length (args fl) \<noteq> 1
      \<or> Ext sy (hd (args fl)) \<noteq> ''.go'')"

text \<open>The file is read and the program is built, or the build fails.\<close>

definition built :: "'p sys \<Rightarrow> flags \<Rightarrow> 'p option \<Rightarrow> bool" where
  "built sy fl prog =
     (\<not> usageError sy fl \<and>
      (case Abs sy (hd (args fl)) of
         None \<Rightarrow> False
       | Some absFile \<Rightarrow>
           (case ReadFile sy absFile of
              None \<Rightarrow> False
            | Some main \<Rightarrow>
                Load sy main \<lparr>LimitMemory = (mem fl \<noteq> [])\<rparr> = prog)))"

definition theRunOptions :: "'p sys \<Rightarrow> flags \<Rightarrow> runOptions" where
  "theRunOptions sy fl =
     \<lparr>Deadline = (case parseTime sy fl of Inr d \<Rightarrow> d | Inl _ \<Rightarrow> None),
      MemoryLimiter = (case parseMem sy fl of Inr l \<Rightarrow> l | Inl _ \<Rightarrow> None)\<rparr>"



text \<open>A system where the file is read, building gives \<open>prog\<close> and running gives
  \<open>res\<close>; and flags without \<open>-time\<close> and \<open>-mem\<close>.\<close>

definition demoSys :: "nat option \<Rightarrow> runError + int \<Rightarrow> nat sys" where
  "demoSys prog res =
     \<lparr>ParseDuration = (\<lambda>s. None), Atoi = (\<lambda>s. None),
      Ext = (\<lambda>f. drop (length f - 3) f), Abs = Some,
      ReadFile = (\<lambda>f. Some ''package main''),
      Load = (\<lambda>src opts. prog), Disassemble = (\<lambda>p. True), Run = (\<lambda>p opts. res)\<rparr>"

definition demoFlags :: "bool \<Rightarrow> string list \<Rightarrow> flags" where
  "demoFlags a as = \<lparr>asm = a, timeout = [], mem = [], args = as\<rparr>"


section \<open>Template pages as packages (type checker, templatePageToPackage)\<close>

text \<open>\<open>utf8.DecodeRuneInString\<close>, rune after rune: the code points of a string.  An
  invalid byte is the rune \<open>U+FFFD\<close>.\<close>

definition runeValue :: "nat \<Rightarrow> nat list \<Rightarrow> nat" where
  "runeValue c cs =
     (let w = runeWidth c cs in
      if w = 1 then (if c < 128 then c else 65533)
      else if w = 2 then (c mod 32) * 64 + (cs ! 0) mod 64
      else if w = 3 then (c mod 16) * 4096 + ((cs ! 0) mod 64) * 64 + (cs ! 1) mod 64
      else (c mod 8) * 262144 + ((cs ! 0) mod 64) * 4096 + ((cs ! 1) mod 64) * 64
           + (cs ! 2) mod 64)"

fun decodeRunes :: "nat list \<Rightarrow> nat list" where
  "decodeRunes [] = []"
| "decodeRunes (c # cs) = runeValue c cs # decodeRunes (drop (runeWidth c cs - 1) cs)"

text \<open>\<open>unicode.IsSpace\<close>: the Latin-1 spaces and the table \<open>White_Space\<close>.\<close>

definition IsSpace :: "nat \<Rightarrow> bool" where
  "IsSpace r =
     (if r \<le> 255 then r \<in> {9, 10, 11, 12, 13, 32, 133, 160}
      else r = 5760 \<or> (8192 \<le> r \<and> r \<le> 8202) \<or> r = 8232 \<or> r = 8233 \<or> r = 8239
           \<or> r = 8287 \<or> r = 12288)"

text \<open>\<open>strings.TrimSpace\<close>, on the runes of the string: the leading and the trailing
  white space is cut.\<close>

definition TrimSpace :: "nat list \<Rightarrow> nat list" where
  "TrimSpace rs = rev (dropWhile IsSpace (rev (dropWhile IsSpace rs)))"

record Position =
  Line :: int
  Column :: int
  Start :: int
  End :: int

text \<open>The nodes of a tree, as far as \<open>templatePageToPackage\<close> tells them apart.  Each
  node has its position, which may be nil, and its content \<open>'a\<close>; \<open>Statement\<close> is a
  node of any other type.\<close>

datatype 'a Node =
    Comment "Position option" 'a
  | Macro "Position option" 'a
  | Var "Position option" 'a
  | TypeDeclaration "Position option" 'a
  | Const "Position option" 'a
  | Import "Position option" 'a
  | Extends "Position option" 'a
  | Text "Position option" string
  | Package "Position option" string "'a Node list"
  | Statement "Position option" 'a

fun Pos :: "'a Node \<Rightarrow> Position option" where
  "Pos (Comment p _) = p"
| "Pos (Macro p _) = p"
| "Pos (Var p _) = p"
| "Pos (TypeDeclaration p _) = p"
| "Pos (Const p _) = p"
| "Pos (Import p _) = p"
| "Pos (Extends p _) = p"
| "Pos (Text p _) = p"
| "Pos (Package p _ _) = p"
| "Pos (Statement p _) = p"

record 'a Tree =
  Nodes :: "'a Node list"
  treePos :: "Position option"

datatype checkError = CheckingError string Position string | PlainError string

record typechecker =
  tcPath :: string

text \<open>\<open>tc.errorf(node, format)\<close>, that is \<open>checkError(tc.path, node, format)\<close>.\<close>

definition errorf :: "typechecker \<Rightarrow> 'a Node \<Rightarrow> string \<Rightarrow> checkError" where
  "errorf tc n msg =
     (case Pos n of None \<Rightarrow> PlainError msg | Some pos \<Rightarrow> CheckingError (tcPath tc) pos msg)"

definition declarationsOnly :: string where
  "declarationsOnly =
     ''template declarations can only contain extends, import or declaration statements''"

text \<open>The loop over \<open>tree.Nodes\<close>; \<open>acc\<close> is the slice \<open>nodes\<close>.\<close>

fun liftNodes :: "typechecker \<Rightarrow> 'a Node list \<Rightarrow> 'a Node list \<Rightarrow> checkError + 'a Node list" where
  "liftNodes tc acc [] = Inr acc"
| "liftNodes tc acc (Comment p c # ns) = liftNodes tc acc ns"
| "liftNodes tc acc (Macro p c # ns) = liftNodes tc (acc @ [Macro p c]) ns"
| "liftNodes tc acc (Var p c # ns) = liftNodes tc (acc @ [Var p c]) ns"
| "liftNodes tc acc (TypeDeclaration p c # ns) = liftNodes tc (acc @ [TypeDeclaration p c]) ns"
| "liftNodes tc acc (Const p c # ns) = liftNodes tc (acc @ [Const p c]) ns"
| "liftNodes tc acc (Import p c # ns) = liftNodes tc (acc @ [Import p c]) ns"
| "liftNodes tc acc (Extends p c # ns) = liftNodes tc (acc @ [Extends p c]) ns"
| "liftNodes tc acc (Text p txt # ns) =
     (if length (TrimSpace (decodeRunes (map byte txt))) = 0 then liftNodes tc acc ns
      else Inl (errorf tc (Text p txt :: 'a Node) declarationsOnly))"
| "liftNodes tc acc (n # ns) = Inl (errorf tc n declarationsOnly)"

definition isPackageTree :: "'a Tree \<Rightarrow> bool" where
  "isPackageTree tree = (case Nodes tree of [Package _ _ _] \<Rightarrow> True | _ \<Rightarrow> False)"

text \<open>The result is the error (if any), the type checker and the tree as they are
  left.  On an error the path of the type checker is not set back.\<close>

definition templatePageToPackage ::
  "typechecker \<Rightarrow> 'a Tree \<Rightarrow> string \<Rightarrow> checkError option \<times> typechecker \<times> 'a Tree" where
  "templatePageToPackage tc tree p =
     (if isPackageTree tree then (None, tc, tree)
      else
        let currentPath = tcPath tc; tc1 = tc\<lparr>tcPath := p\<rparr> in
        (case liftNodes tc1 [] (Nodes tree) of
           Inl e \<Rightarrow> (Some e, tc1, tree)
         | Inr nodes \<Rightarrow>
             (None, tc1\<lparr>tcPath := currentPath\<rparr>,
              tree\<lparr>Nodes := [Package (treePos tree) [] nodes]\<rparr>)))"

text \<open>The kinds of top-level nodes the claim speaks of.\<close>

fun isDeclaration :: "'a Node \<Rightarrow> bool" where
  "isDeclaration (Macro _ _) = True"
| "isDeclaration (Var _ _) = True"
| "isDeclaration (TypeDeclaration _ _) = True"
| "isDeclaration (Const _ _) = True"
| "isDeclaration (Import _ _) = True"
| "isDeclaration (Extends _ _) = True"
| "isDeclaration _ = False"

fun isDropped :: "'a Node \<Rightarrow> bool" where
  "isDropped (Comment _ _) = True"
| "isDropped (Text _ txt) = list_all IsSpace (decodeRunes (map byte txt))"
| "isDropped _ = False"

definition allowedNode :: "'a Node \<Rightarrow> bool" where
  "allowedNode n = (isDeclaration n \<or> isDropped n)"


section \<open>Type checking of the show statement (checkNodes, case ast.Show)\<close>

text \<open>\<open>reflect.Kind\<close>, with the number of each kind.\<close>

text \<open>(\<open>Int'\<close> is \<open>reflect.Int\<close>.)\<close>

datatype Kind =
    Invalid | Bool | Int' | Int8 | Int16 | Int32 | Int64
  | Uint | Uint8 | Uint16 | Uint32 | Uint64 | Uintptr
  | Float32 | Float64 | Complex64 | Complex128
  | Array | Chan | Func | Interface | Map | Ptr | Slice | String | Struct | UnsafePointer

fun kindNumber :: "Kind \<Rightarrow> nat" where
  "kindNumber Invalid = 0"
| "kindNumber Bool = 1"
| "kindNumber Int' = 2"
| "kindNumber Int8 = 3"
| "kindNumber Int16 = 4"
| "kindNumber Int32 = 5"
| "kindNumber Int64 = 6"
| "kindNumber Uint = 7"
| "kindNumber Uint8 = 8"
| "kindNumber Uint16 = 9"
| "kindNumber Uint32 = 10"
| "kindNumber Uint64 = 11"
| "kindNumber Uintptr = 12"
| "kindNumber Float32 = 13"
| "kindNumber Float64 = 14"
| "kindNumber Complex64 = 15"
| "kindNumber Complex128 = 16"
| "kindNumber Array = 17"
| "kindNumber Chan = 18"
| "kindNumber Func = 19"
| "kindNumber Interface = 20"
| "kindNumber Map = 21"
| "kindNumber Ptr = 22"
| "kindNumber Slice = 23"
| "kindNumber String = 24"
| "kindNumber Struct = 25"
| "kindNumber UnsafePointer = 26"

text \<open>What the checker asks of a \<open>reflect.Type\<close>: its kind, whether it is one of the
  types \<open>emptyInterfaceType\<close> and \<open>byteSliceType\<close>, and which of the stringer
  interfaces it implements.\<close>

datatype knownType = emptyInterfaceType | byteSliceType | anotherType

datatype stringerInterface = stringerType | htmlStringerType | cssStringerType

record reflectType =
  kind :: Kind
  equalTo :: knownType
  Implements :: "stringerInterface \<Rightarrow> bool"

text \<open>The type info of the operand: \<open>Nil'\<close> is \<open>ti.Nil()\<close> and \<open>Type'\<close> is \<open>ti.Type\<close>.\<close>

record typeInfo =
  Nil' :: bool
  Type' :: reflectType

datatype Context =
    ContextText | ContextHTML | ContextTag | ContextAttribute | ContextUnquotedAttribute
  | ContextCSS | ContextCSSString | ContextJavaScript | ContextJavaScriptString

text \<open>The errors of the case: "use of untyped nil", "cannot print e (type t cannot be
  printed as text)", "... as HTML", "... as CSS", and "cannot print e (err)" with the
  error of \<open>printedAsJavaScript\<close>.\<close>

datatype showError =
    UseOfUntypedNil
  | CannotPrintAsText
  | CannotPrintAsHTML
  | CannotPrintAsCSS
  | CannotPrint string

text \<open>\<open>printedAsJavaScript\<close> is a parameter \<open>pj\<close>: it returns an error, or nil (\<open>None\<close>).
  The result of \<open>checkShow\<close> is the error the checker panics with, or \<open>None\<close>.\<close>

definition checkShow ::
  "(reflectType \<Rightarrow> string option) \<Rightarrow> Context \<Rightarrow> typeInfo \<Rightarrow> showError option" where
  "checkShow pj ctx ti =
     (if Nil' ti then Some UseOfUntypedNil
      else
        let t = Type' ti; k = kind t in
        if ctx \<in> {ContextText, ContextTag, ContextAttribute, ContextUnquotedAttribute,
                   ContextCSSString, ContextJavaScriptString} then
          (if k = String then None
           else if kindNumber Bool \<le> kindNumber k \<and> kindNumber k \<le> kindNumber Complex128
             then None
           else if equalTo t = emptyInterfaceType then None
           else if ctx = ContextCSSString \<and> equalTo t = byteSliceType then None
           else if Implements t stringerType then None
           else Some CannotPrintAsText)
        else if ctx = ContextHTML then
          (if k = String then None
           else if kindNumber Bool \<le> kindNumber k \<and> kindNumber k \<le> kindNumber Complex128
             then None
           else if equalTo t = emptyInterfaceType then None
           else if Implements t stringerType then None
           else if Implements t htmlStringerType then None
           else Some CannotPrintAsHTML)
        else if ctx = ContextCSS then
          (if k = String then None
           else if kindNumber Int' \<le> kindNumber k \<and> kindNumber k \<le> kindNumber Float64
             then None
           else if equalTo t = emptyInterfaceType then None
           else if equalTo t = byteSliceType then None
           else if Implements t cssStringerType then None
           else Some CannotPrintAsCSS)
        else if ctx = ContextJavaScript then
          (case pj t of None \<Rightarrow> None | Some err \<Rightarrow> Some (CannotPrint err))
        else None)"

text \<open>The kinds of Go: the integer and floating-point kinds, and the numeric kinds.\<close>

definition realKind :: "Kind \<Rightarrow> bool" where
  "realKind k = (k \<in> {Int', Int8, Int16, Int32, Int64, Uint, Uint8, Uint16, Uint32, Uint64,
     Uintptr, Float32, Float64})"

definition numericKind :: "Kind \<Rightarrow> bool" where
  "numericKind k = (realKind k \<or> k = Complex64 \<or> k = Complex128)"

text \<open>The claim, in its words: the types each context accepts.\<close>

definition claimedShowable :: "(reflectType \<Rightarrow> string option) \<Rightarrow> Context \<Rightarrow> reflectType \<Rightarrow> bool" where
  "claimedShowable pj ctx t =
     (let base = (kind t = String \<or> numericKind (kind t) \<or> equalTo t = emptyInterfaceType
                  \<or> Implements t stringerType) in
      if ctx = ContextHTML then base \<or> Implements t htmlStringerType
      else if ctx = ContextCSS then
        base \<or> equalTo t = byteSliceType \<or> Implements t cssStringerType
      else if ctx = ContextJavaScript then pj t = None
      else base)"

text \<open>What the code accepts.\<close>

definition showable :: "(reflectType \<Rightarrow> string option) \<Rightarrow> Context \<Rightarrow> reflectType \<Rightarrow> bool" where
  "showable pj ctx t =
     (if ctx = ContextHTML then
        kind t = String \<or> kind t = Bool \<or> numericKind (kind t)
        \<or> equalTo t = emptyInterfaceType \<or> Implements t stringerType
        \<or> Implements t htmlStringerType
      else if ctx = ContextCSS then
        kind t = String \<or> realKind (kind t) \<or> equalTo t = emptyInterfaceType
        \<or> equalTo t = byteSliceType \<or> Implements t cssStringerType
      else if ctx = ContextJavaScript then pj t = None
      else
        kind t = String \<or> kind t = Bool \<or> numericKind (kind t)
        \<or> equalTo t = emptyInterfaceType \<or> Implements t stringerType
        \<or> (ctx = ContextCSSString \<and> equalTo t = byteSliceType))"

definition cannotPrint :: "(reflectType \<Rightarrow> string option) \<Rightarrow> Context \<Rightarrow> reflectType \<Rightarrow> showError" where
  "cannotPrint pj ctx t =
     (if ctx = ContextHTML then CannotPrintAsHTML
      else if ctx = ContextCSS then CannotPrintAsCSS
      else if ctx = ContextJavaScript then
        (case pj t of None \<Rightarrow> CannotPrint [] | Some err \<Rightarrow> CannotPrint err)
      else CannotPrintAsText)"

text \<open>The types \<open>bool\<close>, \<open>complex128\<close> and \<open>[]byte\<close>.\<close>

definition boolType :: reflectType where
  "boolType = \<lparr>kind = Bool, equalTo = anotherType, Implements = (\<lambda>i. False)\<rparr>"

definition complex128Type :: reflectType where
  "complex128Type = \<lparr>kind = Complex128, equalTo = anotherType, Implements = (\<lambda>i. False)\<rparr>"

definition byteSlice :: reflectType where
  "byteSlice = \<lparr>kind = Slice, equalTo = byteSliceType, Implements = (\<lambda>i. False)\<rparr>"


section \<open>Binary operations on untyped constants (type checker, binaryOp)\<close>












text \<open>The operators of package ast that \<open>binaryOp\<close> names, and any other one.\<close>

datatype Operator =
    OperatorEqual | OperatorNotEqual | OperatorLess | OperatorLessOrEqual
  | OperatorGreater | OperatorGreaterOrEqual | OperatorAnd | OperatorOr
  | OperatorAddition | OperatorSubtraction | OperatorMultiplication
  | OperatorDivision | OperatorModulo | OperatorOther























section \<open>Conversions of format types (type checker)\<close>

text \<open>The format types of a template, and the type \<open>string\<close>.\<close>

datatype Format = FormatHTML | FormatCSS | FormatJS | FormatJSON | FormatMarkdown

datatype stringy = StringType | FormatType Format

text \<open>The operand of a conversion: an untyped string constant, or a value (a variable
  or a typed constant) of a type.\<close>

datatype operand = UntypedStringConstant | TypedValue stringy

datatype convertError = errTypeConversion

text \<open>Modelled from the spec: the function of the type checker that decides an explicit
  conversion \<open>T(x)\<close> to or from a format type is not in the sources (only the tests of
  \<open>checker_template_test.go\<close> are).  An untyped string constant converts to any
  format type; a value of type \<open>string\<close> does not convert to a format type; a value
  of a format type converts to \<open>string\<close> and to its own format type, and not to
  another format type.  The error is the one reported as "cannot convert x (type t1)
  to type t2".\<close>

fun convert :: "operand \<Rightarrow> stringy \<Rightarrow> convertError option" where
  "convert UntypedStringConstant t = None"
| "convert (TypedValue StringType) StringType = None"
| "convert (TypedValue StringType) (FormatType f) = Some errTypeConversion"
| "convert (TypedValue (FormatType f)) StringType = None"
| "convert (TypedValue (FormatType f)) (FormatType g) =
     (if f = g then None else Some errTypeConversion)"

text \<open>Modelled from the spec: assignability, the conversion made without writing it, is
  not in the sources either.  A format type is a distinct nominal type: a typed value
  is assignable to its own type only; an untyped string constant is assignable to
  \<open>string\<close> and to every format type.\<close>

fun isAssignableTo :: "operand \<Rightarrow> stringy \<Rightarrow> bool" where
  "isAssignableTo UntypedStringConstant t = True"
| "isAssignableTo (TypedValue t1) t2 = (t1 = t2)"


section \<open>Calls of the virtual machine (package vm, VM.run)\<close>

text \<open>The four register banks (integer, float, string, general) have one frame
  pointer and one size each: \<open>vm.fp\<close> and \<open>vm.st\<close> are arrays \<open>[4]uint32\<close>.\<close>

datatype 'a array4 = Array4 'a 'a 'a 'a

fun at4 :: "'a array4 \<Rightarrow> nat \<Rightarrow> 'a" where
  "at4 (Array4 x0 x1 x2 x3) i =
     (if i = 0 then x0 else if i = 1 then x1 else if i = 2 then x2 else x3)"

fun set4 :: "'a array4 \<Rightarrow> nat \<Rightarrow> 'a \<Rightarrow> 'a array4" where
  "set4 (Array4 x0 x1 x2 x3) i v =
     (if i = 0 then Array4 v x1 x2 x3 else if i = 1 then Array4 x0 v x2 x3
      else if i = 2 then Array4 x0 x1 v x3 else Array4 x0 x1 x2 v)"

text \<open>An instruction: the operation and the operands \<open>a\<close>, \<open>b\<close>, \<open>c\<close>, each an \<open>int8\<close>.\<close>

datatype instruction = Instruction "8 word" "8 word" "8 word" "8 word"

text \<open>Functions and packages refer to each other by pointers; here they are numbered,
  and a store gives the function and the package of a number.  \<open>regnum\<close> holds the
  values \<open>uint32(fn.regnum[i])\<close>.\<close>

record Function =
  pkg :: nat
  regnum :: "32 word array4"
  body :: "instruction list"




record Call =
  callFn :: nat
  callCvars :: "nat list"
  callFp :: "32 word array4"
  callPc :: "32 word"
  tail :: bool

record VM =
  vmFn :: nat
  cvars :: "nat list"
  fp :: "32 word array4"
  st :: "32 word array4"
  calls :: "Call list"



text \<open>Modelled from the spec: \<open>moreIntStack\<close>, \<open>moreFloatStack\<close>, \<open>moreStringStack\<close> and
  \<open>moreGeneralStack\<close> are not in the sources; the spec says that a bank grows by
  doubling.  \<open>moreStack i\<close> doubles the size of bank \<open>i\<close>.\<close>

definition moreStack :: "nat \<Rightarrow> VM \<Rightarrow> VM" where
  "moreStack i vm = vm\<lparr>st := set4 (st vm) i (2 * at4 (st vm) i)\<rparr>"

text \<open>\<open>if vm.fp[i]+uint32(fn.regnum[i]) > vm.st[i] { vm.more...Stack() }\<close>\<close>

definition growFor :: "Function \<Rightarrow> nat \<Rightarrow> VM \<Rightarrow> VM" where
  "growFor f i vm =
     (if at4 (fp vm) i + at4 (regnum f) i > at4 (st vm) i then moreStack i vm else vm)"

text \<open>\<open>vm.fp[i] += uint32(x)\<close> for an \<open>int8\<close> \<open>x\<close>: the conversion extends the sign.\<close>

definition shiftFp :: "nat \<Rightarrow> 8 word \<Rightarrow> VM \<Rightarrow> VM" where
  "shiftFp i x vm = vm\<lparr>fp := set4 (fp vm) i (at4 (fp vm) i + scast x)\<rparr>"
















section \<open>Rendering of a tree (package template, rendering.render)\<close>

text \<open>An \<open>io.Writer\<close>: what was written, and whether a write fails.  \<open>writeTo\<close> is
  \<open>wr.Write\<close> and \<open>io.WriteString\<close>.\<close>

record writer =
  written :: string
  broken :: bool

text \<open>The messages of the errors of a show of a macro; the lists of the arguments had
  and wanted are left out of the two last.\<close>

datatype message =
    DifferentContext string Context
  | CannotShowNonMacro string
  | MacroNotDeclared string
  | NotEnoughArguments string
  | TooManyArguments string

text \<open>The errors of rendering: an \<open>*Error\<close> with path and position; an error without
  position; an error of the writer; an error of \<open>eval\<close> or \<open>renderValue\<close>; a panic.\<close>

datatype renderError =
    RenderingError string Position message
  | PlainRenderingError message
  | WriteFailed
  | ValueError nat
  | GoPanics

definition writeTo :: "writer \<Rightarrow> string \<Rightarrow> renderError + writer" where
  "writeTo w t = (if broken w then Inl WriteFailed else Inr (w\<lparr>written := written w @ t\<rparr>))"

record urlState =
  path :: bool
  query :: bool
  isSet :: bool
  addAmp :: bool

text \<open>An expression is not looked into: \<open>eval\<close> is a parameter.\<close>

datatype expr = Expr nat

text \<open>The nodes that are modelled: \<open>Text'\<close> is \<open>ast.Text\<close> with its text and the left
  and right cut; \<open>URL\<close> has its attribute and its value; \<open>Value'\<close> is \<open>ast.Value\<close> with
  its expression and context; \<open>ShowMacro\<close> has its position, the name of the macro, the
  name of the import (or nil), the arguments and the context.\<close>

datatype tnode =
    Text' string nat nat
  | URL string "tnode list"
  | Value' expr Context
  | ShowMacro "Position option" string "string option" "expr list" Context

text \<open>\<open>ast.Macro\<close>: its context, the names of its parameters, whether it is variadic, and
  its body.\<close>

datatype macroNode = MacroNode Context "string list" bool "tnode list"

text \<open>A value in a scope: a macro (its path and its node), a reference, a slice
  \<open>[]interface{}\<close> (nil or not), or another value.\<close>

datatype val = MacroVal string macroNode | ReferenceVal | SliceVal "val list" | NilSliceVal
  | OtherVal nat

type_synonym scope = "string \<Rightarrow> val option"

text \<open>\<open>rendering\<close>.  A nil scope in \<open>vars\<close> is \<open>None\<close>.\<close>

record rendering =
  scope :: "string \<Rightarrow> scope option"
  rpath :: string
  vars :: "scope option list"
  treeContext :: Context
  handleError :: "renderError \<Rightarrow> bool"

text \<open>\<open>r.eval\<close> and \<open>r.renderValue\<close> are not in the sources.\<close>

record env =
  eval :: "rendering \<Rightarrow> expr \<Rightarrow> renderError + val"
  renderValue :: "writer option \<Rightarrow> val \<Rightarrow> Context \<Rightarrow> urlState option \<Rightarrow>
                  renderError option \<times> writer option \<times> urlState option"

text \<open>\<open>r.errorf(node, ...)\<close> for a node with position \<open>pos\<close>.\<close>

definition rerrorf :: "rendering \<Rightarrow> Position option \<Rightarrow> message \<Rightarrow> renderError" where
  "rerrorf r pos msg =
     (case pos of None \<Rightarrow> PlainRenderingError msg | Some p \<Rightarrow> RenderingError (rpath r) p msg)"

text \<open>\<open>r.variable(name)\<close>: the scopes are searched from the last to the first; a
  reference is a panic.\<close>

fun variableIn :: "scope option list \<Rightarrow> string \<Rightarrow> renderError + val option" where
  "variableIn [] name = Inr None"
| "variableIn (None # vs) name = variableIn vs name"
| "variableIn (Some sc # vs) name =
     (case sc name of
        None \<Rightarrow> variableIn vs name
      | Some ReferenceVal \<Rightarrow> Inl GoPanics
      | Some v \<Rightarrow> Inr (Some v))"

definition variable :: "rendering \<Rightarrow> string \<Rightarrow> renderError + val option" where
  "variable r name = variableIn (rev (vars r)) name"

text \<open>The part of the case \<open>ast.Text\<close> that looks at the URL state, for a state that is
  not nil: whether \<open>&amp;\<close> is written first, the text that is written, and the new
  state.\<close>

definition containsAny :: "string \<Rightarrow> string \<Rightarrow> bool" where
  "containsAny t chars = list_ex (\<lambda>ch. ch \<in> set chars) t"

definition textInURL :: "urlState \<Rightarrow> string \<Rightarrow> bool \<times> string \<times> urlState" where
  "textInURL u t =
     (if \<not> query u then
        (let (amp, t1, u1) =
           (if containsAny t ''?#'' then
              (if firstIs t CHR ''?'' \<and> \<not> path u
               then (addAmp u, tl t, u\<lparr>path := False, query := True\<rparr>)
               else (False, t, u\<lparr>path := False, query := True\<rparr>))
            else (False, t, u));
             u2 = (if isSet u1 \<and> IndexByte t1 CHR '','' \<ge> 0
                   then u1\<lparr>path := True, query := False\<rparr> else u1)
         in (amp, t1, u2))
      else (False, t, u))"

text \<open>\<open>node.Text[node.Cut.Left : len(node.Text)-node.Cut.Right]\<close>\<close>

definition cutText :: "string \<Rightarrow> nat \<Rightarrow> nat \<Rightarrow> string" where
  "cutText txt cl cr = take (length txt - cr - cl) (drop cl txt)"

text \<open>The case \<open>ast.Text\<close>: the error (or nil), the writer and the URL state.\<close>

definition writeText ::
  "writer \<Rightarrow> string \<Rightarrow> urlState option \<Rightarrow> renderError option \<times> writer option \<times> urlState option" where
  "writeText w t us =
     (case writeTo w t of Inl e \<Rightarrow> (Some e, Some w, us) | Inr w1 \<Rightarrow> (None, Some w1, us))"

definition renderText ::
  "writer option \<Rightarrow> string \<Rightarrow> nat \<Rightarrow> nat \<Rightarrow> urlState option \<Rightarrow>
   renderError option \<times> writer option \<times> urlState option" where
  "renderText wr txt cl cr us =
     (case wr of
        None \<Rightarrow> (None, wr, us)
      | Some w \<Rightarrow>
          if int (length txt) - int cl - int cr = 0 then (None, wr, us)
          else if cl + cr > length txt then (Some GoPanics, wr, us)
          else
            let t = cutText txt cl cr in
            (case us of
               None \<Rightarrow> writeText w t None
             | Some u \<Rightarrow>
                 (case textInURL u t of
                    (amp, t1, u2) \<Rightarrow>
                      if amp then
                        (case writeTo w ''&amp;'' of
                           Inl e \<Rightarrow> (Some e, wr, us)
                         | Inr w1 \<Rightarrow> writeText w1 t1 (Some u2))
                      else writeText w t1 (Some u2))))"

text \<open>The arguments of a show: \<open>r.eval\<close> on each, until the first error.\<close>

fun evalArgs :: "env \<Rightarrow> rendering \<Rightarrow> expr list \<Rightarrow> renderError + val list" where
  "evalArgs en r [] = Inr []"
| "evalArgs en r (e # es) =
     (case eval en r e of
        Inl err \<Rightarrow> Inl err
      | Inr v \<Rightarrow> (case evalArgs en r es of Inl err \<Rightarrow> Inl err | Inr vs \<Rightarrow> Inr (v # vs)))"

text \<open>The scope \<open>arguments\<close>: each argument under the name of its parameter; for a
  variadic macro the arguments from the last parameter on are a slice under its name.
  \<open>None\<close> is the panic of \<open>parameters[last]\<close> for a variadic macro with no parameter.\<close>

fun bindEach :: "string list \<Rightarrow> val list \<Rightarrow> scope \<Rightarrow> scope" where
  "bindEach (p # ps) (v # vs) sc = bindEach ps vs (sc(p \<mapsto> v))"
| "bindEach ps vs sc = sc"

definition bindArguments :: "string list \<Rightarrow> bool \<Rightarrow> val list \<Rightarrow> scope option" where
  "bindArguments params isVariadic vs =
     (if isVariadic then
        (if params = [] then None
         else
           let lastp = length params - 1;
               rest = drop lastp vs
           in Some (bindEach (take lastp params) (take lastp vs)
                      (Map.empty(last params \<mapsto> (if rest = [] then NilSliceVal else SliceVal rest)))))
      else Some (bindEach params vs Map.empty))"

text \<open>The name that a show looks up.\<close>

definition showName :: "string \<Rightarrow> string option \<Rightarrow> string" where
  "showName name imp = (case imp of None \<Rightarrow> name | Some i \<Rightarrow> i @ ''.'' @ name)"

text \<open>The state that \<open>render\<close> changes: the writer, the URL state (behind a pointer),
  and the errors that were given to \<open>handleError\<close>.\<close>

type_synonym rstate = "writer option \<times> urlState option \<times> renderError list"

text \<open>\<open>render\<close>.  The result is the error (or nil) and the state; \<open>None\<close> when the fuel
  \<open>n\<close>, which bounds the depth of the values of URL nodes and of macro bodies entered,
  does not suffice.\<close>

fun render ::
  "nat \<Rightarrow> env \<Rightarrow> rendering \<Rightarrow> tnode list \<Rightarrow> rstate \<Rightarrow> (renderError option \<times> rstate) option" where
  "render n en r [] s = Some (None, s)"
| "render n en r (Text' txt cl cr # ns) (wr, us, lg) =
     (case renderText wr txt cl cr us of
        (Some e, wr1, us1) \<Rightarrow> Some (Some e, (wr1, us1, lg))
      | (None, wr1, us1) \<Rightarrow> render n en r ns (wr1, us1, lg))"
| "render n en r (URL attribute v # ns) (wr, us, lg) =
     (if length v > 0 then
        (case n of
           0 \<Rightarrow> None
         | Suc m \<Rightarrow>
            (case render m en r v
                    (wr, Some \<lparr>path = True, query = False, isSet = (attribute = ''srcset''),
                              addAmp = False\<rparr>, lg) of
               None \<Rightarrow> None
             | Some (Some e, (wr1, us1, lg1)) \<Rightarrow> Some (Some e, (wr1, us, lg1))
             | Some (None, (wr1, us1, lg1)) \<Rightarrow> render n en r ns (wr1, us, lg1)))
      else render n en r ns (wr, us, lg))"
| "render n en r (Value' e ctx # ns) (wr, us, lg) =
     (case eval en r e of
        Inl err \<Rightarrow>
          if handleError r err then render n en r ns (wr, us, lg @ [err])
          else Some (Some err, (wr, us, lg @ [err]))
      | Inr v \<Rightarrow>
          (case renderValue en wr v ctx us of
             (Some err, wr1, us1) \<Rightarrow> Some (Some err, (wr1, us1, lg))
           | (None, wr1, us1) \<Rightarrow> render n en r ns (wr1, us1, lg)))"
| "render n en r (ShowMacro pos mname imp arguments ctx # ns) (wr, us, lg) =
     (let name = showName mname imp in
      case variable r name of
        Inl e \<Rightarrow> Some (Some e, (wr, us, lg))
      | Inr found \<Rightarrow>
         (case (case found of
                  Some (MacroVal mpath (MacroNode mctx params isVariadic mbody)) \<Rightarrow>
                    if ctx \<noteq> mctx
                    then Inl (rerrorf r pos (DifferentContext name mctx))
                    else Inr (mpath, params, isVariadic, mbody)
                | Some _ \<Rightarrow> Inl (rerrorf r pos (CannotShowNonMacro name))
                | None \<Rightarrow> Inl (rerrorf r pos (MacroNotDeclared name))) of
            Inl err \<Rightarrow>
              if handleError r err then render n en r ns (wr, us, lg @ [err])
              else Some (Some err, (wr, us, lg @ [err]))
          | Inr (mpath, params, isVariadic, mbody) \<Rightarrow>
              let haveSize = length arguments; wantSize = length params in
              if (\<not> isVariadic \<and> haveSize \<noteq> wantSize)
                 \<or> (isVariadic \<and> int haveSize < int wantSize - 1) then
                (let err = rerrorf r pos
                       (if haveSize < wantSize
                        then NotEnoughArguments (case imp of None \<Rightarrow> mname | Some i \<Rightarrow> i @ '' '' @ mname)
                        else TooManyArguments (case imp of None \<Rightarrow> mname | Some i \<Rightarrow> i @ '' '' @ mname))
                 in if handleError r err then render n en r ns (wr, us, lg @ [err])
                    else Some (Some err, (wr, us, lg @ [err])))
              else if isVariadic \<and> params = [] then Some (Some GoPanics, (wr, us, lg))
              else
                (case evalArgs en r arguments of
                   Inl err \<Rightarrow>
                     if handleError r err then render n en r ns (wr, us, lg @ [err])
                     else Some (Some err, (wr, us, lg @ [err]))
                 | Inr vs \<Rightarrow>
                    (case bindArguments params isVariadic vs of
                       None \<Rightarrow> Some (Some GoPanics, (wr, us, lg))
                     | Some ar \<Rightarrow>
                        (case vars r of
                           v0 # v1 # _ \<Rightarrow>
                             (case n of
                                0 \<Rightarrow> None
                              | Suc m \<Rightarrow>
                                 (case render m en
                                         (r\<lparr>rpath := mpath,
                                            vars := [v0, v1, scope r mpath, Some ar]\<rparr>)
                                         mbody (wr, None, lg) of
                                    None \<Rightarrow> None
                                  | Some (Some e, (wr1, us1, lg1)) \<Rightarrow> Some (Some e, (wr1, us, lg1))
                                  | Some (None, (wr1, us1, lg1)) \<Rightarrow> render n en r ns (wr1, us, lg1)))
                         | _ \<Rightarrow> Some (Some GoPanics, (wr, us, lg)))))))"


text \<open>A writer that works, the URL state at the start of the value of an attribute
  (of \<open>srcset\<close> or not), an environment whose values render as nothing, and a rendering
  with one macro \<open>M\<close> of HTML context, without parameters, whose body is the text
  \<open>Hi\<close>.\<close>

definition demoWriter :: writer where
  "demoWriter = \<lparr>written = [], broken = False\<rparr>"

definition urlStart :: "bool \<Rightarrow> urlState" where
  "urlStart srcset = \<lparr>path = True, query = False, isSet = srcset, addAmp = False\<rparr>"

definition demoEnv :: env where
  "demoEnv = \<lparr>eval = (\<lambda>r e. Inr (OtherVal 0)), renderValue = (\<lambda>wr v ctx us. (None, wr, us))\<rparr>"

definition demoMacro :: val where
  "demoMacro = MacroVal ''/m.html'' (MacroNode ContextHTML [] False [Text' ''Hi'' 0 0])"

definition demoRendering :: rendering where
  "demoRendering =
     \<lparr>scope = (\<lambda>p. None), rpath = ''/index.html'',
      vars = [None, None, Some (Map.empty(''M'' \<mapsto> demoMacro))],
      treeContext = ContextHTML, handleError = (\<lambda>e. False)\<rparr>"

text \<open>An environment whose \<open>eval\<close> fails, and a rendering with one macro \<open>P\<close> of HTML
  context, with one parameter, whose body is the text \<open>Hi\<close>.\<close>

definition failingEnv :: env where
  "failingEnv = \<lparr>eval = (\<lambda>r e. Inl (ValueError 1)), renderValue = (\<lambda>wr v ctx us. (None, wr, us))\<rparr>"

definition demoMacroP :: val where
  "demoMacroP = MacroVal ''/m.html'' (MacroNode ContextHTML [''x''] False [Text' ''Hi'' 0 0])"

definition demoRenderingP :: rendering where
  "demoRenderingP =
     \<lparr>scope = (\<lambda>p. None), rpath = ''/index.html'',
      vars = [None, None, Some (Map.empty(''P'' \<mapsto> demoMacroP))],
      treeContext = ContextHTML, handleError = (\<lambda>e. False)\<rparr>"


text \<open>The arguments of a show fit the parameters of the macro; the message of the
  error when they do not; and what \<open>render\<close> does with an error \<open>err\<close> of a node: it
  gives it to \<open>handleError\<close> and, as that says, goes on with the nodes that follow or
  returns the error.\<close>

definition fits :: "bool \<Rightarrow> string list \<Rightarrow> expr list \<Rightarrow> bool" where
  "fits isVariadic params arguments =
     (if isVariadic then params \<noteq> [] \<and> length params \<le> length arguments + 1
      else length arguments = length params)"

definition arityError :: "string \<Rightarrow> string option \<Rightarrow> string list \<Rightarrow> expr list \<Rightarrow> message" where
  "arityError mname imp params arguments =
     (if length arguments < length params
      then NotEnoughArguments (case imp of None \<Rightarrow> mname | Some i \<Rightarrow> i @ '' '' @ mname)
      else TooManyArguments (case imp of None \<Rightarrow> mname | Some i \<Rightarrow> i @ '' '' @ mname))"

definition handled ::
  "nat \<Rightarrow> env \<Rightarrow> rendering \<Rightarrow> tnode list \<Rightarrow> rstate \<Rightarrow> renderError \<Rightarrow>
   (renderError option \<times> rstate) option" where
  "handled n en r ns s err =
     (case s of (wr, us, lg) \<Rightarrow>
        if handleError r err then render n en r ns (wr, us, lg @ [err])
        else Some (Some err, (wr, us, lg @ [err])))"

section \<open>Properties\<close>

subsection \<open>Paths\<close>

text \<open>The length and the first and last character of the file name are tested as the
  claim says.\<close>

lemma IsPath_file_name:
  assumes "IsPath ul p"
  shows "3 \<le> RuneCountInString (last (Split p CHR ''/''))
     \<and> RuneCountInString (last (Split p CHR ''/'')) \<le> 255
     \<and> \<not> firstIs (last (Split p CHR ''/'')) CHR ''.''
     \<and> \<not> lastIs (last (Split p CHR ''/'')) CHR ''.''"
proof -
  from assms have "isFileName ul (last (Split p CHR ''/''))"
    by (simp add: IsPath_def Let_def split: if_splits)
  then show ?thesis
    by (simp add: isFileName_def Let_def split: if_splits)
qed

text \<open>
  Claim C4.  A path is valid only if its file name has at least 3 and at most 255
  characters, has an extension, and neither starts nor ends with a dot.  The comment
  in \<open>isFileName\<close> says that the extension must be present, but the test it makes
  (the text after the last dot contains a dot) never holds, and a name with no dot at
  all passes it: the path \<open>abc\<close> is accepted.
\<close>

theorem IsPath_without_extension: "IsPath ul ''abc'' = True"
  by (simp add: IsPath_def isFileName_def RuneCountInString_def runeWidth_def byte_def
      firstIs_def lastIs_def ToLower_def lowerByte_def LastIndexByte_def
      isWindowsReservedName_def forbiddenByte_def)


subsection \<open>UsedVars\<close>

lemma string_le_total: "string_le a b \<or> string_le b a"
  by (induction a b rule: string_le.induct) (auto simp: byte_def)

lemma string_le_trans: "string_le a b \<Longrightarrow> string_le b c \<Longrightarrow> string_le a c"
proof (induction a b arbitrary: c rule: string_le.induct)
  case (1 ys)
  then show ?case by simp
next
  case (2 x xs)
  then show ?case by simp
next
  case (3 x xs y ys)
  then show ?case by (cases c) auto
qed

lemma set_insertString: "set (insertString x xs) = insert x (set xs)"
  by (induction xs) auto

lemma sorted_insertString:
  "sorted_wrt string_le xs \<Longrightarrow> sorted_wrt string_le (insertString x xs)"
proof (induction xs)
  case Nil
  then show ?case by simp
next
  case (Cons y ys)
  show ?case
  proof (cases "string_le x y")
    case True
    with Cons.prems show ?thesis by (auto intro: string_le_trans [of x y])
  next
    case False
    then have "string_le y x" using string_le_total by blast
    with Cons False show ?thesis by (auto simp: set_insertString)
  qed
qed

lemma sorted_sortStrings: "sorted_wrt string_le (sortStrings xs)"
  by (induction xs) (simp_all add: sortStrings_def sorted_insertString)

lemma mset_insertString: "mset (insertString x xs) = add_mset x (mset xs)"
  by (induction xs) auto

lemma mset_sortStrings: "mset (sortStrings xs) = mset xs"
  by (induction xs) (simp_all add: sortStrings_def mset_insertString)


text \<open>Whatever the algorithm, a sorted arrangement of the names is the one of
  \<open>sortStrings\<close>.\<close>

lemma string_le_antisym: "string_le a b \<Longrightarrow> string_le b a \<Longrightarrow> a = b"
proof (induction a b rule: string_le.induct)
  case (1 ys)
  then show ?case by (cases ys) simp_all
next
  case (2 x xs)
  then show ?case by simp
next
  case (3 x xs y ys)
  then show ?case by auto
qed

lemma sorted_strings_unique:
  "sorted_wrt string_le xs \<Longrightarrow> sorted_wrt string_le ys \<Longrightarrow> mset xs = mset ys \<Longrightarrow> xs = ys"
proof (induction xs arbitrary: ys)
  case Nil
  then show ?case by simp
next
  case (Cons x xs)
  from Cons.prems(3) obtain y ys' where ys: "ys = y # ys'" by (cases ys) auto
  have "x \<in> set ys" using Cons.prems(3) by (metis list.set_intros(1) set_mset_mset)
  with ys Cons.prems(2) have 1: "string_le y x \<or> x = y" by auto
  have "y \<in> set (x # xs)" using Cons.prems(3) ys by (metis list.set_intros(1) set_mset_mset)
  with Cons.prems(1) have 2: "string_le x y \<or> x = y" by auto
  from 1 2 have "x = y" using string_le_antisym by blast
  with Cons ys show ?case by simp
qed

lemma sortStrings_unique:
  "sorted_wrt string_le ys \<Longrightarrow> mset ys = mset xs \<Longrightarrow> sortStrings xs = ys"
  using sorted_strings_unique [of "sortStrings xs" ys]
  by (simp add: sorted_sortStrings mset_sortStrings)

text \<open>
  Claim C10.  \<open>UsedVars\<close> returns the names of the globals of the template, one for each
  global, in increasing order, and leaves the template as it was.
\<close>

theorem UsedVars_sorted_names:
  "mset (fst (UsedVars t)) = mset (map Name (globals t))
   \<and> length (fst (UsedVars t)) = length (globals t)
   \<and> sorted_wrt string_le (fst (UsedVars t))
   \<and> snd (UsedVars t) = t"
proof -
  have "length (sortStrings (map Name (globals t))) = length (map Name (globals t))"
    using mset_sortStrings [of "map Name (globals t)"] by (metis size_mset)
  then show ?thesis
    by (simp add: UsedVars_def mset_sortStrings sorted_sortStrings)
qed


subsection \<open>Exit status of the driver\<close>

lemma run_usage: "usageError sy fl \<Longrightarrow> run sy fl = Exit 1"
proof -
  assume u: "usageError sy fl"
  show ?thesis
  proof (cases "parseTime sy fl")
    case (Inl t)
    then have "t = Exit 1" by (auto simp: parseTime_def split: if_splits option.splits)
    with Inl show ?thesis by (simp add: run_def)
  next
    case (Inr d)
    note d = this
    show ?thesis
    proof (cases "parseMem sy fl")
      case (Inl t)
      then have "t = Exit 1" by (auto simp: parseMem_def split: if_splits option.splits)
      with Inl d show ?thesis by (simp add: run_def)
    next
      case (Inr l)
      from d have 1: "\<not> (timeout fl \<noteq> [] \<and> ParseDuration sy (timeout fl) = None)"
        by (auto simp: parseTime_def split: if_splits option.splits)
      from Inr have 2: "\<not> (mem fl \<noteq> [] \<and> Atoi sy (memDigits (mem fl)) = None)"
        by (auto simp: parseMem_def split: if_splits option.splits)
      from u 1 2 have "length (args fl) \<noteq> 1 \<or> Ext sy (hd (args fl)) \<noteq> ''.go''"
        by (simp add: usageError_def)
      then have "runFile sy fl d l = Exit 1"
        by (cases "args fl") (auto simp: runFile_def split: list.splits)
      with d Inr show ?thesis by (simp add: run_def)
    qed
  qed
qed

lemma run_no_usage:
  assumes "\<not> usageError sy fl"
  shows "run sy fl =
    runFile sy fl (Deadline (theRunOptions sy fl)) (MemoryLimiter (theRunOptions sy fl))"
    and "(MemoryLimiter (theRunOptions sy fl) \<noteq> None) = (mem fl \<noteq> [])"
    and "args fl = [hd (args fl)]"
    and "Ext sy (hd (args fl)) = ''.go''"
proof -
  from assms have 1: "\<not> (timeout fl \<noteq> [] \<and> ParseDuration sy (timeout fl) = None)"
    and 2: "\<not> (mem fl \<noteq> [] \<and> Atoi sy (memDigits (mem fl)) = None)"
    and 3: "length (args fl) = 1" and 4: "Ext sy (hd (args fl)) = ''.go''"
    by (simp_all add: usageError_def)
  from 1 obtain d where d: "parseTime sy fl = Inr d"
    by (cases "timeout fl = []") (auto simp: parseTime_def split: option.splits)
  from 2 obtain l where l: "parseMem sy fl = Inr l" and l': "(l \<noteq> None) = (mem fl \<noteq> [])"
    by (cases "mem fl = []") (auto simp: parseMem_def split: option.splits)
  from d l show "run sy fl =
    runFile sy fl (Deadline (theRunOptions sy fl)) (MemoryLimiter (theRunOptions sy fl))"
    by (simp add: run_def theRunOptions_def)
  from l l' show "(MemoryLimiter (theRunOptions sy fl) \<noteq> None) = (mem fl \<noteq> [])"
    by (simp add: theRunOptions_def)
  from 3 show "args fl = [hd (args fl)]" by (cases "args fl") auto
  from 4 show "Ext sy (hd (args fl)) = ''.go''" .
qed

lemma run_built:
  assumes "built sy fl prog"
  shows "run sy fl =
    (case prog of
       None \<Rightarrow> Exit 2
     | Some program \<Rightarrow>
         if asm fl then (if Disassemble sy program then Exit 0 else Exit 2)
         else (case Run sy program (theRunOptions sy fl) of
                 Inl RuntimePanic \<Rightarrow> GoPanic
               | Inl _ \<Rightarrow> Exit 2
               | Inr code \<Rightarrow> Exit code))"
proof -
  from assms have nu: "\<not> usageError sy fl" by (simp add: built_def)
  note r = run_no_usage [OF nu]
  from assms nu obtain absFile main where
    a: "Abs sy (hd (args fl)) = Some absFile" and m: "ReadFile sy absFile = Some main"
    and p: "Load sy main \<lparr>LimitMemory = (mem fl \<noteq> [])\<rparr> = prog"
    by (auto simp: built_def split: option.splits)
  have o: "\<lparr>Deadline = Deadline (theRunOptions sy fl),
            MemoryLimiter = MemoryLimiter (theRunOptions sy fl)\<rparr> = theRunOptions sy fl"
    by simp
  have "runFile sy fl (Deadline (theRunOptions sy fl)) (MemoryLimiter (theRunOptions sy fl)) =
     (case [hd (args fl)] of
        [f] \<Rightarrow>
          if Ext sy f \<noteq> ''.go'' then Exit 1
          else (case Abs sy f of
             None \<Rightarrow> Exit 1
           | Some absFile \<Rightarrow>
              (case ReadFile sy absFile of
                 None \<Rightarrow> GoPanic
               | Some main \<Rightarrow>
                  (case Load sy main \<lparr>LimitMemory = (MemoryLimiter (theRunOptions sy fl) \<noteq> None)\<rparr> of
                     None \<Rightarrow> Exit 2
                   | Some program \<Rightarrow>
                      if asm fl then (if Disassemble sy program then Exit 0 else Exit 2)
                      else (case Run sy program \<lparr>Deadline = Deadline (theRunOptions sy fl),
                                  MemoryLimiter = MemoryLimiter (theRunOptions sy fl)\<rparr> of
                              Inl RuntimePanic \<Rightarrow> GoPanic
                            | Inl _ \<Rightarrow> Exit 2
                            | Inr code \<Rightarrow> Exit code))))
      | _ \<Rightarrow> Exit 1)"
    unfolding runFile_def using r(3) by metis
  then show ?thesis
    unfolding r(1) o r(2) by (simp add: r(4) a m p)
qed


text \<open>
  Claim C9.  The driver ends with status 1 on a usage error (a wrong \<open>-time\<close> or
  \<open>-mem\<close> value, not exactly one argument, an extension other than \<open>.go\<close>), with
  status 2 when the build fails or when running fails, with status 0 after a listing
  was printed, and with the code that \<open>Run\<close> returns otherwise: 0, or \<open>n\<close> after
  \<open>exit(n)\<close>.
\<close>

theorem run_exit_status:
  "(usageError sy fl \<longrightarrow> run sy fl = Exit 1)
   \<and> (built sy fl None \<longrightarrow> run sy fl = Exit 2)
   \<and> (built sy fl (Some p) \<and> asm fl \<and> Disassemble sy p \<longrightarrow> run sy fl = Exit 0)
   \<and> (built sy fl (Some p) \<and> \<not> asm fl \<and> Run sy p (theRunOptions sy fl) = Inl e
        \<longrightarrow> exitStatus (run sy fl) = 2)
   \<and> (built sy fl (Some p) \<and> \<not> asm fl \<and> Run sy p (theRunOptions sy fl) = Inr n
        \<longrightarrow> run sy fl = Exit n)"
proof (intro conjI impI)
  show "run sy fl = Exit 1" if "usageError sy fl" using that by (rule run_usage)
next
  assume "built sy fl None"
  from run_built [OF this] show "run sy fl = Exit 2" by simp
next
  assume b: "built sy fl (Some p) \<and> asm fl \<and> Disassemble sy p"
  then have "built sy fl (Some p)" by simp
  from run_built [OF this] b show "run sy fl = Exit 0" by simp
next
  assume b: "built sy fl (Some p) \<and> \<not> asm fl \<and> Run sy p (theRunOptions sy fl) = Inl e"
  then have "built sy fl (Some p)" by simp
  from run_built [OF this] b show "exitStatus (run sy fl) = 2" by (cases e) simp_all
next
  assume b: "built sy fl (Some p) \<and> \<not> asm fl \<and> Run sy p (theRunOptions sy fl) = Inr n"
  then have "built sy fl (Some p)" by simp
  from run_built [OF this] b show "run sy fl = Exit n" by simp
qed


theorem run_exit_status_witness:
  "usageError (demoSys None (Inr 0)) (demoFlags False [''a.txt''])
   \<and> run (demoSys None (Inr 0)) (demoFlags False [''a.txt'']) = Exit 1
   \<and> built (demoSys None (Inr 0)) (demoFlags False [''a.go'']) None
   \<and> run (demoSys None (Inr 0)) (demoFlags False [''a.go'']) = Exit 2
   \<and> built (demoSys (Some 7) (Inr 0)) (demoFlags True [''a.go'']) (Some 7)
   \<and> run (demoSys (Some 7) (Inr 0)) (demoFlags True [''a.go'']) = Exit 0
   \<and> built (demoSys (Some 7) (Inl RuntimePanic)) (demoFlags False [''a.go'']) (Some 7)
   \<and> exitStatus (run (demoSys (Some 7) (Inl RuntimePanic)) (demoFlags False [''a.go''])) = 2
   \<and> built (demoSys (Some 7) (Inr 3)) (demoFlags False [''a.go'']) (Some 7)
   \<and> run (demoSys (Some 7) (Inr 3)) (demoFlags False [''a.go'']) = Exit 3"
proof -
  have u: "usageError (demoSys None (Inr 0)) (demoFlags False [''a.txt''])"
    by (simp add: usageError_def demoSys_def demoFlags_def)
  have b: "built (demoSys prog res) (demoFlags a [''a.go'']) prog" for prog res a
    by (simp add: built_def usageError_def demoSys_def demoFlags_def)
  have a: "asm (demoFlags a as) = a" for a as by (simp add: demoFlags_def)
  have r: "Run (demoSys prog res) p opts = res" for prog res p opts
    by (simp add: demoSys_def)
  have d: "Disassemble (demoSys prog res) p" for prog res p by (simp add: demoSys_def)
  show ?thesis
    using u b a r d
      run_exit_status [of "demoSys None (Inr 0)" "demoFlags False [''a.txt'']"]
      run_exit_status [of "demoSys None (Inr 0)" "demoFlags False [''a.go'']"]
      run_exit_status [of "demoSys (Some 7) (Inr 0)" "demoFlags True [''a.go'']" 7]
      run_exit_status [of "demoSys (Some 7) (Inl RuntimePanic)" "demoFlags False [''a.go'']" 7
        RuntimePanic]
      run_exit_status [of "demoSys (Some 7) (Inr 3)" "demoFlags False [''a.go'']" 7 _ 3]
    by simp
qed

subsection \<open>Template pages as packages\<close>

lemma TrimSpace_empty: "(TrimSpace rs = []) = list_all IsSpace rs"
proof (cases "dropWhile IsSpace rs = []")
  case True
  then have "list_all IsSpace rs" by (simp add: dropWhile_eq_Nil_conv list_all_iff)
  moreover have "TrimSpace rs = []" unfolding TrimSpace_def True by simp
  ultimately show ?thesis by simp
next
  case False
  then have "\<not> IsSpace (hd (dropWhile IsSpace rs))" by (rule hd_dropWhile)
  moreover from False have "hd (dropWhile IsSpace rs) \<in> set (rev (dropWhile IsSpace rs))"
    by simp
  ultimately have "dropWhile IsSpace (rev (dropWhile IsSpace rs)) \<noteq> []"
    by (metis dropWhile_eq_Nil_conv)
  moreover from False have "\<not> list_all IsSpace rs"
    by (simp add: dropWhile_eq_Nil_conv list_all_iff)
  ultimately show ?thesis by (simp add: TrimSpace_def)
qed

lemma liftNodes_allowed:
  "list_all allowedNode ns \<Longrightarrow> liftNodes tc acc ns = Inr (acc @ filter isDeclaration ns)"
proof (induction ns arbitrary: acc)
  case Nil
  then show ?case by simp
next
  case (Cons n ns)
  then show ?case by (cases n) (simp_all add: allowedNode_def TrimSpace_empty)
qed

lemma liftNodes_other:
  "find (\<lambda>n. \<not> allowedNode n) ns = Some n \<Longrightarrow>
   liftNodes tc acc ns = Inl (errorf tc n declarationsOnly)"
proof (induction ns arbitrary: acc)
  case Nil
  then show ?case by simp
next
  case (Cons m ns)
  then show ?case
    by (cases m) (auto simp: allowedNode_def TrimSpace_empty split: if_splits)
qed


text \<open>
  Claim C5.  When the tree of a template page (a tree that is not already a single
  package node) is converted to a package: if every top-level node is a macro, var,
  type, const, import or extends node, a comment, or a text of white space only, the
  tree becomes one package node whose declarations are exactly the macro, var, type,
  const, import and extends nodes, in their order, and no error is returned; else the
  first other node gives the error "template declarations can only contain extends,
  import or declaration statements" and the tree is left as it was.
\<close>

theorem templatePageToPackage_declarations:
  assumes "\<not> isPackageTree tree"
  shows "(list_all allowedNode (Nodes tree) \<longrightarrow>
            templatePageToPackage tc tree p =
              (None, tc,
               tree\<lparr>Nodes := [Package (treePos tree) [] (filter isDeclaration (Nodes tree))]\<rparr>))
       \<and> (\<forall>n. find (\<lambda>n. \<not> allowedNode n) (Nodes tree) = Some n \<longrightarrow>
            templatePageToPackage tc tree p =
              (Some (errorf (tc\<lparr>tcPath := p\<rparr>) n declarationsOnly), tc\<lparr>tcPath := p\<rparr>, tree))"
  using assms
  by (simp add: templatePageToPackage_def liftNodes_allowed liftNodes_other Let_def)


theorem templatePageToPackage_declarations_witness:
  "\<not> isPackageTree \<lparr>Nodes = [Comment None (0::nat), Text None '' '', Macro None 1,
        Var None 2], treePos = None\<rparr>
   \<and> list_all allowedNode [Comment None (0::nat), Text None '' '', Macro None 1, Var None 2]
   \<and> templatePageToPackage \<lparr>tcPath = ''a''\<rparr>
        \<lparr>Nodes = [Comment None (0::nat), Text None '' '', Macro None 1, Var None 2],
         treePos = None\<rparr> ''b''
       = (None, \<lparr>tcPath = ''a''\<rparr>,
          \<lparr>Nodes = [Package None [] [Macro None 1, Var None 2]], treePos = None\<rparr>)
   \<and> \<not> isPackageTree \<lparr>Nodes = [Macro None (1::nat), Statement None 5], treePos = None\<rparr>
   \<and> find (\<lambda>n. \<not> allowedNode n) [Macro None (1::nat), Statement None 5]
       = Some (Statement None 5)
   \<and> templatePageToPackage \<lparr>tcPath = ''a''\<rparr>
        \<lparr>Nodes = [Macro None (1::nat), Statement None 5], treePos = None\<rparr> ''b''
       = (Some (PlainError declarationsOnly), \<lparr>tcPath = ''b''\<rparr>,
          \<lparr>Nodes = [Macro None (1::nat), Statement None 5], treePos = None\<rparr>)"
proof -
  have 1: "\<not> isPackageTree \<lparr>Nodes = [Comment None (0::nat), Text None '' '', Macro None 1,
        Var None 2], treePos = None\<rparr>"
    and 2: "\<not> isPackageTree \<lparr>Nodes = [Macro None (1::nat), Statement None 5], treePos = None\<rparr>"
    by (simp_all add: isPackageTree_def)
  have 3: "list_all allowedNode [Comment None (0::nat), Text None '' '', Macro None 1, Var None 2]"
    by (simp add: allowedNode_def IsSpace_def runeValue_def runeWidth_def byte_def)
  have 4: "find (\<lambda>n. \<not> allowedNode n) [Macro None (1::nat), Statement None 5]
       = Some (Statement None 5)"
    by (simp add: allowedNode_def)
  show ?thesis
    using 3 4
      templatePageToPackage_declarations [OF 1, of "\<lparr>tcPath = ''a''\<rparr>" "''b''"]
      templatePageToPackage_declarations [OF 2, of "\<lparr>tcPath = ''a''\<rparr>" "''b''"]
    by (simp add: isPackageTree_def allowedNode_def errorf_def)
qed

subsection \<open>The show statement\<close>

lemma bool_to_complex:
  "(kindNumber Bool \<le> kindNumber k \<and> kindNumber k \<le> kindNumber Complex128)
   = (k = Bool \<or> numericKind k)"
  by (cases k) (simp_all add: numericKind_def realKind_def)

lemma int_to_float:
  "(kindNumber Int' \<le> kindNumber k \<and> kindNumber k \<le> kindNumber Float64) = realKind k"
  by (cases k) (simp_all add: realKind_def)

text \<open>
  Claim C1, as the code has it.  The operand of a show statement is accepted exactly
  when it is not the untyped nil and: in text, tag, attribute, unquoted-attribute,
  CSS-string and JavaScript-string context its type has kind string, is boolean or of
  a numeric kind, is the empty interface, implements Stringer, or (in CSS-string
  context only) is the byte slice type; in HTML context it has kind string, is boolean
  or numeric, is the empty interface, or implements Stringer or HTMLStringer; in CSS
  context it has kind string, is of an integer or floating-point kind, is the empty
  interface or the byte slice type, or implements CSSStringer; in JavaScript context
  \<open>printedAsJavaScript\<close> returns no error.  The untyped nil gives "use of untyped nil",
  any other operand the "cannot print" error of the context.
\<close>

theorem checkShow_accepts:
  "checkShow pj ctx ti =
     (if Nil' ti then Some UseOfUntypedNil
      else if showable pj ctx (Type' ti) then None
      else Some (cannotPrint pj ctx (Type' ti)))"
  unfolding checkShow_def Let_def bool_to_complex int_to_float showable_def cannotPrint_def
  by (cases ctx) (auto split: option.splits)

text \<open>A boolean is shown in text context and a byte slice in CSS-string context,
  though the claim lists neither; a complex number, of a numeric kind, is refused in
  CSS context.\<close>

theorem checkShow_bool_counterexample:
  "checkShow (\<lambda>t. None) ContextText \<lparr>Nil' = False, Type' = boolType\<rparr> = None
   \<and> \<not> claimedShowable (\<lambda>t. None) ContextText boolType
   \<and> checkShow (\<lambda>t. None) ContextCSSString \<lparr>Nil' = False, Type' = byteSlice\<rparr> = None
   \<and> \<not> claimedShowable (\<lambda>t. None) ContextCSSString byteSlice
   \<and> checkShow (\<lambda>t. None) ContextCSS \<lparr>Nil' = False, Type' = complex128Type\<rparr>
       = Some CannotPrintAsCSS
   \<and> claimedShowable (\<lambda>t. None) ContextCSS complex128Type"
  by (simp add: checkShow_def claimedShowable_def boolType_def byteSlice_def
      complex128Type_def numericKind_def realKind_def)

subsection \<open>Binary operations on untyped constants\<close>












subsection \<open>Conversions of format types\<close>

text \<open>
  Claim C2.  An untyped string constant converts to any format type; a value of type
  string does not convert to a format type (the error "cannot convert"); a value of a
  format type converts to string by an explicit conversion, and is not assignable to
  string without one; a value of a format type converts to its own format type; and a
  value of a format type does not convert to another format type.
\<close>

theorem format_type_conversions:
  "convert UntypedStringConstant (FormatType f) = None
   \<and> convert (TypedValue StringType) (FormatType f) = Some errTypeConversion
   \<and> convert (TypedValue (FormatType f)) StringType = None
   \<and> \<not> isAssignableTo (TypedValue (FormatType f)) StringType
   \<and> convert (TypedValue (FormatType f)) (FormatType f) = None
   \<and> convert (TypedValue (FormatType f)) (FormatType g)
       = (if f = g then None else Some errTypeConversion)"
  by simp

subsection \<open>Calls of the virtual machine\<close>

lemma at4_set4_same [simp]: "at4 (set4 q i v) i = v"
  by (cases q) auto

lemma at4_set4_other [simp]: "i < 4 \<Longrightarrow> j < 4 \<Longrightarrow> i \<noteq> j \<Longrightarrow> at4 (set4 q i v) j = at4 q j"
  by (cases q) auto

lemma growFor_fields [simp]:
  "fp (growFor f i vm) = fp vm" "calls (growFor f i vm) = calls vm"
  "vmFn (growFor f i vm) = vmFn vm" "cvars (growFor f i vm) = cvars vm"
  by (simp_all add: growFor_def moreStack_def)



lemma shiftFp_fields [simp]:
  "st (shiftFp i x vm) = st vm" "calls (shiftFp i x vm) = calls vm"
  "vmFn (shiftFp i x vm) = vmFn vm" "cvars (shiftFp i x vm) = cvars vm"
  by (simp_all add: shiftFp_def)

lemma shiftFp_fp_same: "at4 (fp (shiftFp i x vm)) i = at4 (fp vm) i + scast x"
  by (simp add: shiftFp_def)

lemma shiftFp_fp_other:
  "i < 4 \<Longrightarrow> j < 4 \<Longrightarrow> i \<noteq> j \<Longrightarrow> at4 (fp (shiftFp i x vm)) j = at4 (fp vm) j"
  by (simp add: shiftFp_def)

















subsection \<open>Text in the value of a URL attribute\<close>

lemma IndexByte_ge0: "(IndexByte t ch \<ge> 0) = (ch \<in> set t)"
  by (induction t) (auto simp: Let_def)

lemma textInURL_query: "query u \<Longrightarrow> textInURL u t = (False, t, u)"
  by (simp add: textInURL_def)

lemma textInURL_comma:
  assumes "\<not> query u" "isSet u" "CHR '','' \<in> set t"
  shows "snd (snd (textInURL u t)) = u\<lparr>path := True, query := False\<rparr>"
proof -
  have "CHR '','' \<in> set (tl t)" if "firstIs t CHR ''?''"
    using that assms(3) by (cases t) (auto simp: firstIs_def)
  then show ?thesis
    using assms by (auto simp: textInURL_def Let_def IndexByte_ge0)
qed

lemma textInURL_mark:
  assumes "\<not> query u" "containsAny t ''?#''" "\<not> (isSet u \<and> CHR '','' \<in> set t)"
  shows "snd (snd (textInURL u t)) = u\<lparr>path := False, query := True\<rparr>"
proof -
  have "CHR '','' \<notin> set (tl t)" if "CHR '','' \<notin> set t"
    using that by (cases t) auto
  then show ?thesis
    using assms by (auto simp: textInURL_def Let_def IndexByte_ge0)
qed

lemma renderText_state:
  assumes "\<not> broken w" "cl + cr < length txt"
  shows "renderText (Some w) txt cl cr (Some u) =
     (None,
      Some (w\<lparr>written := written w
                @ (if fst (textInURL u (cutText txt cl cr)) then ''&amp;'' else [])
                @ fst (snd (textInURL u (cutText txt cl cr)))\<rparr>),
      Some (snd (snd (textInURL u (cutText txt cl cr)))))"
proof -
  obtain amp t1 u2 where t: "textInURL u (cutText txt cl cr) = (amp, t1, u2)"
    by (cases "textInURL u (cutText txt cl cr)") auto
  from assms(2) have "int (length txt) - int cl - int cr \<noteq> 0" "\<not> cl + cr > length txt"
    by auto
  then show ?thesis
    using assms(1) t by (simp add: renderText_def Let_def writeText_def writeTo_def)
qed


text \<open>
  Claim C8, as the code has it.  While the value of a URL attribute is rendered, a
  literal text that is written (the writer works, the text is not empty) changes the
  URL state only if the state is not the query state when the text comes: then a text
  with \<open>?\<close> or \<open>#\<close> switches to the query state (and clears the path state), unless
  the attribute is \<open>srcset\<close> and the text has a comma; and in a \<open>srcset\<close> attribute a
  text with a comma switches to the path state.  In the query state a text leaves the
  state as it is, also a text with a comma in \<open>srcset\<close>.  A value shown after the text
  is rendered in the state the text has left.
\<close>

theorem text_in_url_attribute:
  assumes "\<not> broken w" and "cl + cr < length txt"
  shows "\<exists>w1 u1. renderText (Some w) txt cl cr (Some u) = (None, Some w1, Some u1)
     \<and> (\<not> query u \<and> containsAny (cutText txt cl cr) ''?#''
          \<and> \<not> (isSet u \<and> CHR '','' \<in> set (cutText txt cl cr))
        \<longrightarrow> u1 = u\<lparr>path := False, query := True\<rparr>)
     \<and> (\<not> query u \<and> isSet u \<and> CHR '','' \<in> set (cutText txt cl cr)
        \<longrightarrow> u1 = u\<lparr>path := True, query := False\<rparr>)
     \<and> (query u \<longrightarrow> u1 = u)
     \<and> (eval en r e = Inr v \<longrightarrow>
          render n en r (Text' txt cl cr # Value' e ctx # ns) (Some w, Some u, lg) =
            (case renderValue en (Some w1) v ctx (Some u1) of
               (Some err, wr2, us2) \<Rightarrow> Some (Some err, (wr2, us2, lg))
             | (None, wr2, us2) \<Rightarrow> render n en r ns (wr2, us2, lg)))"
proof -
  let ?t = "cutText txt cl cr"
  let ?w1 = "w\<lparr>written := written w @ (if fst (textInURL u ?t) then ''&amp;'' else [])
                @ fst (snd (textInURL u ?t))\<rparr>"
  let ?u1 = "snd (snd (textInURL u ?t))"
  have r: "renderText (Some w) txt cl cr (Some u) = (None, Some ?w1, Some ?u1)"
    using assms by (rule renderText_state)
  have 1: "?u1 = u\<lparr>path := False, query := True\<rparr>"
    if "\<not> query u \<and> containsAny ?t ''?#'' \<and> \<not> (isSet u \<and> CHR '','' \<in> set ?t)"
    using that textInURL_mark by blast
  have 2: "?u1 = u\<lparr>path := True, query := False\<rparr>"
    if "\<not> query u \<and> isSet u \<and> CHR '','' \<in> set ?t"
    using that textInURL_comma by blast
  have 3: "?u1 = u" if "query u"
    using that by (simp add: textInURL_query)
  have 4: "render n en r (Text' txt cl cr # Value' e ctx # ns) (Some w, Some u, lg) =
            (case renderValue en (Some ?w1) v ctx (Some ?u1) of
               (Some err, wr2, us2) \<Rightarrow> Some (Some err, (wr2, us2, lg))
             | (None, wr2, us2) \<Rightarrow> render n en r ns (wr2, us2, lg))"
    if "eval en r e = Inr v"
    using that by (simp add: r)
  from r 1 2 3 4 show ?thesis by blast
qed

theorem text_in_url_attribute_witness:
  "\<not> broken demoWriter \<and> 0 + 0 < length ''/x?u=1, ''
   \<and> \<not> query (urlStart True) \<and> isSet (urlStart True)
   \<and> CHR '','' \<in> set (cutText ''/x?u=1, '' 0 0)
   \<and> (\<exists>w1. renderText (Some demoWriter) ''/x?u=1, '' 0 0 (Some (urlStart True))
             = (None, Some w1, Some ((urlStart True)\<lparr>path := True, query := False\<rparr>))
          \<and> render 0 demoEnv demoRendering
               [Text' ''/x?u=1, '' 0 0, Value' (Expr 0) ContextAttribute]
               (Some demoWriter, Some (urlStart True), [])
             = Some (None, (Some w1, Some ((urlStart True)\<lparr>path := True, query := False\<rparr>), [])))
   \<and> containsAny (cutText ''/p?'' 0 0) ''?#'' \<and> \<not> isSet (urlStart False)
   \<and> (\<exists>w1. renderText (Some demoWriter) ''/p?'' 0 0 (Some (urlStart False))
             = (None, Some w1, Some ((urlStart False)\<lparr>path := False, query := True\<rparr>)))
   \<and> query ((urlStart True)\<lparr>path := False, query := True\<rparr>)
   \<and> (\<exists>w1. renderText (Some demoWriter) '', /y'' 0 0
               (Some ((urlStart True)\<lparr>path := False, query := True\<rparr>))
             = (None, Some w1, Some ((urlStart True)\<lparr>path := False, query := True\<rparr>)))"
proof -
  have b: "\<not> broken demoWriter" by (simp add: demoWriter_def)
  have l1: "0 + 0 < length ''/x?u=1, ''" and l2: "0 + 0 < length ''/p?''"
    and l3: "0 + 0 < length '', /y''" by simp_all
  have s: "\<not> query (urlStart True)" "isSet (urlStart True)" "\<not> query (urlStart False)"
      "\<not> isSet (urlStart False)" "query ((urlStart True)\<lparr>path := False, query := True\<rparr>)"
    by (simp_all add: urlStart_def)
  have c1: "CHR '','' \<in> set (cutText ''/x?u=1, '' 0 0)" by (simp add: cutText_def)
  have c2: "containsAny (cutText ''/p?'' 0 0) ''?#''"
    by (simp add: cutText_def containsAny_def)
  have ev: "eval demoEnv demoRendering (Expr 0) = Inr (OtherVal 0)"
    by (simp add: demoEnv_def)
  have rv: "renderValue demoEnv wr v ctx us = (None, wr, us)" for wr v ctx us
    by (simp add: demoEnv_def)
  note t = text_in_url_attribute [OF b, where en = demoEnv
      and r = demoRendering and e = "Expr 0" and v = "OtherVal 0" and n = 0
      and ctx = ContextAttribute and ns = "[]" and lg = "[]"]
  from t [OF l1, where u = "urlStart True"] s c1 ev
  have p1: "\<exists>w1. renderText (Some demoWriter) ''/x?u=1, '' 0 0 (Some (urlStart True))
             = (None, Some w1, Some ((urlStart True)\<lparr>path := True, query := False\<rparr>))
          \<and> render 0 demoEnv demoRendering
               [Text' ''/x?u=1, '' 0 0, Value' (Expr 0) ContextAttribute]
               (Some demoWriter, Some (urlStart True), [])
             = Some (None, (Some w1, Some ((urlStart True)\<lparr>path := True, query := False\<rparr>), []))"
    by (auto simp: rv)
  from t [OF l2, where u = "urlStart False"] s c2
  have p2: "\<exists>w1. renderText (Some demoWriter) ''/p?'' 0 0 (Some (urlStart False))
             = (None, Some w1, Some ((urlStart False)\<lparr>path := False, query := True\<rparr>))"
    by auto
  from t [OF l3, where u = "(urlStart True)\<lparr>path := False, query := True\<rparr>"] s
  have p3: "\<exists>w1. renderText (Some demoWriter) '', /y'' 0 0
               (Some ((urlStart True)\<lparr>path := False, query := True\<rparr>))
             = (None, Some w1, Some ((urlStart True)\<lparr>path := False, query := True\<rparr>))"
    by auto
  from b l1 s c1 c2 p1 p2 p3 show ?thesis by blast
qed


text \<open>In a \<open>srcset\<close> attribute, after the text \<open>/x?a=\<close> has switched to the query state,
  the text \<open>, /y\<close> does not switch back to the path state.\<close>

theorem srcset_comma_in_query_counterexample:
  "renderText (Some demoWriter) ''/x?a='' 0 0 (Some (urlStart True))
     = (None, Some (demoWriter\<lparr>written := ''/x?a=''\<rparr>),
        Some ((urlStart True)\<lparr>path := False, query := True\<rparr>))
   \<and> renderText (Some (demoWriter\<lparr>written := ''/x?a=''\<rparr>)) '', /y'' 0 0
        (Some ((urlStart True)\<lparr>path := False, query := True\<rparr>))
     = (None, Some (demoWriter\<lparr>written := ''/x?a=, /y''\<rparr>),
        Some ((urlStart True)\<lparr>path := False, query := True\<rparr>))
   \<and> isSet ((urlStart True)\<lparr>path := False, query := True\<rparr>)
   \<and> \<not> path ((urlStart True)\<lparr>path := False, query := True\<rparr>)"
  by (simp add: renderText_def demoWriter_def urlStart_def cutText_def textInURL_def
      containsAny_def firstIs_def writeText_def writeTo_def)

subsection \<open>The show of a macro\<close>

lemma show_different_context:
  assumes "variable r (showName mname imp)
       = Inr (Some (MacroVal mpath (MacroNode mctx params isVariadic mbody)))"
    and "ctx \<noteq> mctx"
  shows "render n en r (ShowMacro pos mname imp arguments ctx # ns) (wr, us, lg) =
       handled n en r ns (wr, us, lg) (rerrorf r pos (DifferentContext (showName mname imp) mctx))"
  using assms by (simp add: Let_def handled_def)

lemma show_arity:
  assumes "variable r (showName mname imp)
       = Inr (Some (MacroVal mpath (MacroNode mctx params isVariadic mbody)))"
    and "ctx = mctx"
    and "(\<not> isVariadic \<and> length arguments \<noteq> length params)
         \<or> (isVariadic \<and> length arguments + 1 < length params)"
  shows "render n en r (ShowMacro pos mname imp arguments ctx # ns) (wr, us, lg) =
       handled n en r ns (wr, us, lg) (rerrorf r pos (arityError mname imp params arguments))"
proof -
  from assms(3) have "(\<not> isVariadic \<and> length arguments \<noteq> length params)
         \<or> (isVariadic \<and> int (length arguments) < int (length params) - 1)"
    by auto
  with assms(1,2) show ?thesis
    by (simp add: Let_def handled_def arityError_def)
qed

lemma show_body:
  assumes "variable r (showName mname imp)
       = Inr (Some (MacroVal mpath (MacroNode mctx params isVariadic mbody)))"
    and "ctx = mctx"
    and "fits isVariadic params arguments"
    and "evalArgs en r arguments = Inr vs"
    and "bindArguments params isVariadic vs = Some ar"
    and "vars r = v0 # v1 # rest"
  shows "render (Suc n) en r (ShowMacro pos mname imp arguments ctx # ns) (wr, us, lg) =
       (case render n en (r\<lparr>rpath := mpath, vars := [v0, v1, scope r mpath, Some ar]\<rparr>)
               mbody (wr, None, lg) of
          None \<Rightarrow> None
        | Some (Some e, (wr1, us1, lg1)) \<Rightarrow> Some (Some e, (wr1, us, lg1))
        | Some (None, (wr1, us1, lg1)) \<Rightarrow> render (Suc n) en r ns (wr1, us, lg1))"
proof (cases isVariadic)
  case True
  with assms(3) have "params \<noteq> []" "\<not> int (length arguments) < int (length params) - 1"
    by (auto simp: fits_def)
  with True assms(1,2,4,5,6) show ?thesis by (simp add: Let_def)
next
  case False
  with assms(3) have "length arguments = length params" by (simp add: fits_def)
  with False assms(1,2,4,5,6) show ?thesis by (simp add: Let_def)
qed

lemma show_eval_error:
  assumes "variable r (showName mname imp)
       = Inr (Some (MacroVal mpath (MacroNode mctx params isVariadic mbody)))"
    and "ctx = mctx"
    and "fits isVariadic params arguments"
    and "evalArgs en r arguments = Inl err"
  shows "render n en r (ShowMacro pos mname imp arguments ctx # ns) (wr, us, lg) =
       handled n en r ns (wr, us, lg) err"
proof (cases isVariadic)
  case True
  with assms(3) have "params \<noteq> []" "\<not> int (length arguments) < int (length params) - 1"
    by (auto simp: fits_def)
  with True assms(1,2,4) show ?thesis by (simp add: Let_def handled_def)
next
  case False
  with assms(3) have "length arguments = length params" by (simp add: fits_def)
  with False assms(1,2,4) show ?thesis by (simp add: Let_def handled_def)
qed


text \<open>
  Claim C6, as the code has it.  For a show, in context C, of a name that is a macro:
  if the context of the macro differs from C, the error "macro ... is defined in a
  different context" is given to the error handler and nothing is rendered for that
  show (rendering goes on with the next node, or stops with that error, as the handler
  says); if the context of the macro equals C, that error is not raised: when the
  number of arguments does not fit the parameters the error about the arguments is
  given to the handler in the same way; when the arguments fit and the evaluation of
  one of them fails, the error of the evaluation is given to the handler in the same
  way, and the body is not rendered; and when the arguments fit and evaluate, the
  body of the macro is rendered.
\<close>

theorem show_macro_context:
  assumes "variable r (showName mname imp)
       = Inr (Some (MacroVal mpath (MacroNode mctx params isVariadic mbody)))"
  shows "(ctx \<noteq> mctx \<longrightarrow>
          render n en r (ShowMacro pos mname imp arguments ctx # ns) (wr, us, lg) =
            handled n en r ns (wr, us, lg)
              (rerrorf r pos (DifferentContext (showName mname imp) mctx)))
       \<and> (ctx = mctx
           \<and> ((\<not> isVariadic \<and> length arguments \<noteq> length params)
               \<or> (isVariadic \<and> length arguments + 1 < length params)) \<longrightarrow>
          render n en r (ShowMacro pos mname imp arguments ctx # ns) (wr, us, lg) =
            handled n en r ns (wr, us, lg)
              (rerrorf r pos (arityError mname imp params arguments)))
       \<and> (ctx = mctx \<and> fits isVariadic params arguments
           \<and> evalArgs en r arguments = Inl err \<longrightarrow>
          render n en r (ShowMacro pos mname imp arguments ctx # ns) (wr, us, lg) =
            handled n en r ns (wr, us, lg) err)
       \<and> (ctx = mctx \<and> fits isVariadic params arguments
           \<and> evalArgs en r arguments = Inr vs
           \<and> bindArguments params isVariadic vs = Some ar
           \<and> vars r = v0 # v1 # rest \<longrightarrow>
          render (Suc n) en r (ShowMacro pos mname imp arguments ctx # ns) (wr, us, lg) =
            (case render n en (r\<lparr>rpath := mpath, vars := [v0, v1, scope r mpath, Some ar]\<rparr>)
                    mbody (wr, None, lg) of
               None \<Rightarrow> None
             | Some (Some e, (wr1, us1, lg1)) \<Rightarrow> Some (Some e, (wr1, us, lg1))
             | Some (None, (wr1, us1, lg1)) \<Rightarrow> render (Suc n) en r ns (wr1, us, lg1)))"
proof (intro conjI impI)
  assume "ctx \<noteq> mctx"
  then show "render n en r (ShowMacro pos mname imp arguments ctx # ns) (wr, us, lg) =
            handled n en r ns (wr, us, lg)
              (rerrorf r pos (DifferentContext (showName mname imp) mctx))"
    by (rule show_different_context [OF assms])
next
  assume "ctx = mctx
           \<and> ((\<not> isVariadic \<and> length arguments \<noteq> length params)
               \<or> (isVariadic \<and> length arguments + 1 < length params))"
  then show "render n en r (ShowMacro pos mname imp arguments ctx # ns) (wr, us, lg) =
            handled n en r ns (wr, us, lg)
              (rerrorf r pos (arityError mname imp params arguments))"
    using show_arity [OF assms] by simp
next
  assume "ctx = mctx \<and> fits isVariadic params arguments
           \<and> evalArgs en r arguments = Inl err"
  then show "render n en r (ShowMacro pos mname imp arguments ctx # ns) (wr, us, lg) =
            handled n en r ns (wr, us, lg) err"
    using show_eval_error [OF assms] by simp
next
  assume "ctx = mctx \<and> fits isVariadic params arguments
           \<and> evalArgs en r arguments = Inr vs
           \<and> bindArguments params isVariadic vs = Some ar
           \<and> vars r = v0 # v1 # rest"
  then show "render (Suc n) en r (ShowMacro pos mname imp arguments ctx # ns) (wr, us, lg) =
            (case render n en (r\<lparr>rpath := mpath, vars := [v0, v1, scope r mpath, Some ar]\<rparr>)
                    mbody (wr, None, lg) of
               None \<Rightarrow> None
             | Some (Some e, (wr1, us1, lg1)) \<Rightarrow> Some (Some e, (wr1, us, lg1))
             | Some (None, (wr1, us1, lg1)) \<Rightarrow> render (Suc n) en r ns (wr1, us, lg1))"
    using show_body [OF assms] by simp
qed

theorem show_macro_context_witness:
  "variable demoRendering (showName ''M'' None)
     = Inr (Some (MacroVal ''/m.html'' (MacroNode ContextHTML [] False [Text' ''Hi'' 0 0])))
   \<and> ContextCSS \<noteq> ContextHTML
   \<and> render 0 demoEnv demoRendering [ShowMacro None ''M'' None [] ContextCSS]
        (Some demoWriter, None, [])
     = Some (Some (PlainRenderingError (DifferentContext ''M'' ContextHTML)),
             (Some demoWriter, None, [PlainRenderingError (DifferentContext ''M'' ContextHTML)]))
   \<and> length [Expr 0] \<noteq> length ([] :: string list)
   \<and> render 0 demoEnv demoRendering [ShowMacro None ''M'' None [Expr 0] ContextHTML]
        (Some demoWriter, None, [])
     = Some (Some (PlainRenderingError (TooManyArguments ''M'')),
             (Some demoWriter, None, [PlainRenderingError (TooManyArguments ''M'')]))
   \<and> fits False [] []
   \<and> evalArgs demoEnv demoRendering [] = Inr []
   \<and> bindArguments [] False [] = Some Map.empty
   \<and> vars demoRendering = [None, None, Some (Map.empty(''M'' \<mapsto> demoMacro))]
   \<and> render 1 demoEnv demoRendering [ShowMacro None ''M'' None [] ContextHTML]
        (Some demoWriter, None, [])
     = Some (None, (Some (demoWriter\<lparr>written := ''Hi''\<rparr>), None, []))
   \<and> variable demoRenderingP (showName ''P'' None)
     = Inr (Some (MacroVal ''/m.html'' (MacroNode ContextHTML [''x''] False [Text' ''Hi'' 0 0])))
   \<and> fits False [''x''] [Expr 0]
   \<and> evalArgs failingEnv demoRenderingP [Expr 0] = Inl (ValueError 1)
   \<and> render 1 failingEnv demoRenderingP [ShowMacro None ''P'' None [Expr 0] ContextHTML]
        (Some demoWriter, None, [])
     = Some (Some (ValueError 1), (Some demoWriter, None, [ValueError 1]))"
proof -
  have v: "variable demoRendering (showName ''M'' None)
     = Inr (Some (MacroVal ''/m.html'' (MacroNode ContextHTML [] False [Text' ''Hi'' 0 0])))"
    by (simp add: demoRendering_def demoMacro_def variable_def showName_def)
  note t = show_macro_context [OF v, where en = demoEnv and pos = None and ns = "[]"
      and wr = "Some demoWriter" and us = None and lg = "[]"]
  have h: "handled n demoEnv demoRendering [] (wr, us, lg) err = Some (Some err, (wr, us, lg @ [err]))"
    for n wr us lg err
    by (simp add: handled_def demoRendering_def)
  have f: "fits False [] []" "evalArgs demoEnv demoRendering [] = Inr []"
    "bindArguments [] False [] = Some Map.empty"
    "vars demoRendering = [None, None, Some (Map.empty(''M'' \<mapsto> demoMacro))]"
    by (simp_all add: fits_def bindArguments_def demoRendering_def)
  have ne: "ContextCSS \<noteq> ContextHTML" "length [Expr 0] \<noteq> length ([] :: string list)"
    by simp_all
  from t [where ctx = ContextCSS and arguments = "[]" and n = 0] ne
  have 1: "render 0 demoEnv demoRendering [ShowMacro None ''M'' None [] ContextCSS]
        (Some demoWriter, None, [])
     = Some (Some (PlainRenderingError (DifferentContext ''M'' ContextHTML)),
             (Some demoWriter, None, [PlainRenderingError (DifferentContext ''M'' ContextHTML)]))"
    by (simp add: h rerrorf_def showName_def)
  from t [where ctx = ContextHTML and arguments = "[Expr 0]" and n = 0]
  have 2: "render 0 demoEnv demoRendering [ShowMacro None ''M'' None [Expr 0] ContextHTML]
        (Some demoWriter, None, [])
     = Some (Some (PlainRenderingError (TooManyArguments ''M'')),
             (Some demoWriter, None, [PlainRenderingError (TooManyArguments ''M'')]))"
    by (simp add: h rerrorf_def arityError_def)
  from t [where ctx = ContextHTML and arguments = "[]" and n = 0 and vs = "[]"
      and ar = Map.empty and ?v0.0 = None and ?v1.0 = None
      and rest = "[Some (Map.empty(''M'' \<mapsto> demoMacro))]"] f
  have 3: "render 1 demoEnv demoRendering [ShowMacro None ''M'' None [] ContextHTML]
        (Some demoWriter, None, [])
     = Some (None, (Some (demoWriter\<lparr>written := ''Hi''\<rparr>), None, []))"
    by (simp add: renderText_def cutText_def writeText_def writeTo_def demoWriter_def)
  have vp: "variable demoRenderingP (showName ''P'' None)
     = Inr (Some (MacroVal ''/m.html'' (MacroNode ContextHTML [''x''] False [Text' ''Hi'' 0 0])))"
    by (simp add: demoRenderingP_def demoMacroP_def variable_def showName_def)
  have fp: "fits False [''x''] [Expr 0]"
    "evalArgs failingEnv demoRenderingP [Expr 0] = Inl (ValueError 1)"
    by (simp_all add: fits_def failingEnv_def)
  from show_macro_context [OF vp, where en = failingEnv and pos = None and ns = "[]"
      and wr = "Some demoWriter" and us = None and lg = "[]" and ctx = ContextHTML
      and arguments = "[Expr 0]" and n = 1 and err = "ValueError 1"] fp
  have 4: "render 1 failingEnv demoRenderingP [ShowMacro None ''P'' None [Expr 0] ContextHTML]
        (Some demoWriter, None, [])
     = Some (Some (ValueError 1), (Some demoWriter, None, [ValueError 1]))"
    by (simp add: handled_def demoRenderingP_def)
  from v ne 1 2 f 3 vp fp 4 show ?thesis by blast
qed


text \<open>A show in the context of the macro, with one argument too many: the body of the
  macro is not rendered.\<close>

theorem show_macro_arguments_counterexample:
  "variable demoRendering (showName ''M'' None)
     = Inr (Some (MacroVal ''/m.html'' (MacroNode ContextHTML [] False [Text' ''Hi'' 0 0])))
   \<and> render 1 demoEnv demoRendering [ShowMacro None ''M'' None [Expr 0] ContextHTML]
        (Some demoWriter, None, [])
     = Some (Some (PlainRenderingError (TooManyArguments ''M'')),
             (Some demoWriter, None, [PlainRenderingError (TooManyArguments ''M'')]))"
  by (simp add: demoRendering_def demoMacro_def variable_def showName_def rerrorf_def Let_def)

end
